theory Spec2Isabelle
  imports Complex_Main "HOL-Library.Sublist"
begin

section \<open>Python strings and values\<close>

text \<open>
  The three modules of the orchestration engine analyse agent output by keyword search
  in lower-cased text. Strings are modelled as \<^typ>\<open>string\<close>, and the model is one of
  ASCII text: a byte above 127 is left as it is by \<open>lower\<close> and by \<open>repr\<close> and is never
  white space, whereas Python lower-cases letters, escapes unprintable code points and
  splits at blanks outside ASCII as well.

  Scores are binary floating-point numbers in the source and exact rationals here. The
  two agree except where a rounded sum falls on the other side of a threshold it is compared
  with (in the source 0.5 + 0.2 + 0.1 is just below 0.8, and 1.0 - 3 * 0.2 just below 0.4).
\<close>

definition lower_char :: "char \<Rightarrow> char" where
  "lower_char c =
     (case map_of (zip ''ABCDEFGHIJKLMNOPQRSTUVWXYZ'' ''abcdefghijklmnopqrstuvwxyz'') c of
        Some d \<Rightarrow> d
      | None \<Rightarrow> c)"

text \<open>\<open>s.lower()\<close>\<close>

definition lower :: "string \<Rightarrow> string" where
  "lower s = map lower_char s"

text \<open>\<open>kw in text\<close> on strings: \<open>kw\<close> occurs as a contiguous substring.\<close>

fun isin :: "string \<Rightarrow> string \<Rightarrow> bool" where
  "isin kw [] = (kw = [])"
| "isin kw (c # cs) = (prefix kw (c # cs) \<or> isin kw cs)"

text \<open>\<open>any(keyword in text for keyword in kws)\<close>\<close>

definition any_in :: "string list \<Rightarrow> string \<Rightarrow> bool" where
  "any_in kws text = list_ex (\<lambda>kw. isin kw text) kws"

text \<open>\<open>sum(1 for keyword in kws if keyword in text)\<close>\<close>

definition count_in :: "string list \<Rightarrow> string \<Rightarrow> nat" where
  "count_in kws text = length (filter (\<lambda>kw. isin kw text) kws)"

definition digit_char :: "nat \<Rightarrow> char" where
  "digit_char d = ''0123456789abcdef'' ! d"

text \<open>\<open>str(n)\<close> for a natural number: its decimal digits.\<close>

function string_of_nat :: "nat \<Rightarrow> string" where
  "string_of_nat n =
     (if n < 10 then [digit_char n] else string_of_nat (n div 10) @ [digit_char (n mod 10)])"
  by pat_completeness auto
termination
  by (relation "measure id") auto

declare string_of_nat.simps [simp del]

definition string_of_int :: "int \<Rightarrow> string" where
  "string_of_int i = (if i < 0 then CHR ''-'' # string_of_nat (nat (- i)) else string_of_nat (nat i))"

text \<open>
  \<open>repr\<close> of a string: single quotes unless the string holds a single quote and no double
  quote; the quote in use and the backslash are escaped, tab, newline and carriage return
  become \<open>\t\<close>, \<open>\n\<close>, \<open>\r\<close>, any other control character becomes \<open>\xhh\<close>.
\<close>

definition repr_char :: "char \<Rightarrow> char \<Rightarrow> string" where
  "repr_char q c =
     (let n = (of_char c :: nat) in
      if c = q \<or> c = CHR 0x5C then [CHR 0x5C, c]
      else if n = 9 then [CHR 0x5C, CHR ''t'']
      else if n = 10 then [CHR 0x5C, CHR ''n'']
      else if n = 13 then [CHR 0x5C, CHR ''r'']
      else if n < 32 \<or> n = 127 then [CHR 0x5C, CHR ''x'', digit_char (n div 16), digit_char (n mod 16)]
      else [c])"

definition repr_str :: "string \<Rightarrow> string" where
  "repr_str s =
     (let q = (if CHR 0x27 \<in> set s \<and> CHR 0x22 \<notin> set s then CHR 0x22 else CHR 0x27)
      in [q] @ concat (map (repr_char q) s) @ [q])"

text \<open>\<open>sep.join(parts)\<close>\<close>

fun join :: "string \<Rightarrow> string list \<Rightarrow> string" where
  "join sep [] = []"
| "join sep [x] = x"
| "join sep (x # y # ys) = x @ sep @ join sep (y # ys)"

text \<open>
  The values of the engine's \<open>Dict[str, Any]\<close> payloads. A dictionary is an association
  list in insertion order (the order \<open>str\<close> prints and \<open>values()\<close> iterates), with
  distinct keys.
\<close>

datatype pyval =
    PStr string
  | PInt int
  | PBool bool
  | PNone
  | PList "pyval list"
  | PDict "(string \<times> pyval) list"

type_synonym pydict = "(string \<times> pyval) list"

fun repr :: "pyval \<Rightarrow> string" where
  "repr (PStr s) = repr_str s"
| "repr (PInt i) = string_of_int i"
| "repr (PBool b) = (if b then ''True'' else ''False'')"
| "repr PNone = ''None''"
| "repr (PList vs) = ''['' @ join '', '' (map repr vs) @ '']''"
| "repr (PDict kvs) =
     ''{'' @ join '', '' (map (\<lambda>kv. repr_str (fst kv) @ '': '' @ repr (snd kv)) kvs) @ ''}''"

text \<open>\<open>str(v)\<close>: a string is itself, anything else prints as its \<open>repr\<close>.\<close>

fun str :: "pyval \<Rightarrow> string" where
  "str (PStr s) = s"
| "str v = repr v"

text \<open>\<open>d[k] = v\<close>: an existing key keeps its position.\<close>

fun dict_set :: "(string \<times> 'v) list \<Rightarrow> string \<Rightarrow> 'v \<Rightarrow> (string \<times> 'v) list" where
  "dict_set [] k v = [(k, v)]"
| "dict_set ((k', v') # d) k v = (if k' = k then (k', v) # d else (k', v') # dict_set d k v)"

text \<open>\<open>d.update(e)\<close>, and \<open>{**d, **e}\<close>\<close>

definition dict_update :: "(string \<times> 'v) list \<Rightarrow> (string \<times> 'v) list \<Rightarrow> (string \<times> 'v) list" where
  "dict_update d e = foldl (\<lambda>acc kv. dict_set acc (fst kv) (snd kv)) d e"

text \<open>\<open>d.get(k)\<close>\<close>

definition dict_get :: "(string \<times> 'v) list \<Rightarrow> string \<Rightarrow> 'v option" where
  "dict_get d k = map_of d k"

definition keys :: "(string \<times> 'v) list \<Rightarrow> string list" where
  "keys d = map fst d"

section \<open>The intelligence engine: data model\<close>

text \<open>
  The engine receives each agent response as a dictionary and reads it with
  \<open>response.get(key, default)\<close>; an absent \<open>result\<close>, \<open>recommendations\<close>,
  \<open>potential_conflicts\<close> or \<open>technical_decisions\<close> reads as the empty default, so the
  record holds the value read. The keys \<open>status\<close>, \<open>metadata.agent_name\<close> and
  \<open>metadata.confidence\<close> may be absent. A technical decision is a dictionary with the
  string entries \<open>decision\<close> and \<open>recommendation\<close>, either of which may be absent.
\<close>

record technical_decision =
  decision :: "string option"
  recommendation :: "string option"

record response =
  d_status :: "string option"
  d_agent_name :: "string option"
  d_confidence :: "rat option"
  d_result :: pydict
  d_technical_decisions :: "technical_decision list"
  d_potential_conflicts :: pydict
  d_recommendations :: pydict

text \<open>The dictionary a technical decision is, for \<open>str(decision)\<close>.\<close>

definition decision_dict :: "technical_decision \<Rightarrow> pyval" where
  "decision_dict d =
     PDict ((case decision d of None \<Rightarrow> [] | Some s \<Rightarrow> [(''decision'', PStr s)])
          @ (case recommendation d of None \<Rightarrow> [] | Some s \<Rightarrow> [(''recommendation'', PStr s)]))"

text \<open>\<open>d.get(key, default)\<close> on an optional entry\<close>

definition get_or :: "'a option \<Rightarrow> 'a \<Rightarrow> 'a" where
  "get_or v dflt = (case v of None \<Rightarrow> dflt | Some x \<Rightarrow> x)"

datatype ConflictType =
    ARCHITECTURE_DISAGREEMENT
  | TECHNOLOGY_CHOICE_CONFLICT
  | SECURITY_VS_PERFORMANCE
  | IMPLEMENTATION_APPROACH_CONFLICT
  | DESIGN_PATTERN_DISAGREEMENT
  | SCOPE_OVERLAP

datatype ConflictSeverity = LOW | MODERATE | HIGH | CRITICAL

record performance_implications_rec =
  perf_impact_level :: string
  perf_areas_affected :: "string list"
  optimization_required :: bool
  performance_testing_needed :: bool

record security_implications_rec =
  sec_impact_level :: string
  security_areas_affected :: "string list"
  security_review_required :: bool
  threat_model_update_needed :: bool

record resolution_option =
  option_name :: string
  option_description :: string
  pros :: "string list"
  cons :: "string list"
  implementation_effort :: string

record ConflictAnalysis =
  conflict_id :: string
  agents_involved :: "string list"
  conflict_type :: ConflictType
  severity :: ConflictSeverity
  description :: string
  root_cause :: string
  technical_areas :: "string list"
  architecture_impact :: string
  performance_implications :: performance_implications_rec
  security_implications :: security_implications_rec
  resolution_options :: "resolution_option list"
  stakeholder_input_required :: bool

section \<open>The intelligence engine: conflict analysis\<close>

text \<open>\<open>_classify_conflict\<close>: the type and the severity, from the merged conflict text.\<close>

definition conflict_text_of :: "pydict \<Rightarrow> pydict \<Rightarrow> string" where
  "conflict_text_of conflicts1 conflicts2 =
     (let all_conflicts = dict_update conflicts1 conflicts2
      in lower (str (PDict all_conflicts)))"

definition classify_type :: "string \<Rightarrow> ConflictType" where
  "classify_type conflict_text =
     (if isin ''architecture'' conflict_text \<or> isin ''design'' conflict_text
        then ARCHITECTURE_DISAGREEMENT
      else if isin ''technology'' conflict_text \<or> isin ''framework'' conflict_text
        then TECHNOLOGY_CHOICE_CONFLICT
      else if isin ''security'' conflict_text \<and> isin ''performance'' conflict_text
        then SECURITY_VS_PERFORMANCE
      else if isin ''implementation'' conflict_text \<or> isin ''approach'' conflict_text
        then IMPLEMENTATION_APPROACH_CONFLICT
      else if isin ''pattern'' conflict_text
        then DESIGN_PATTERN_DISAGREEMENT
      else SCOPE_OVERLAP)"

definition severity_indicators_of :: "string \<Rightarrow> nat" where
  "severity_indicators_of conflict_text =
     (let severity_indicators = 0;
          severity_indicators =
            (if any_in [''security'', ''architecture'', ''database''] conflict_text
             then severity_indicators + 2 else severity_indicators);
          severity_indicators =
            (if any_in [''cannot'', ''incompatible'', ''conflicts'', ''contradicts''] conflict_text
             then severity_indicators + 2 else severity_indicators);
          severity_indicators =
            (if any_in [''performance'', ''scalability'', ''bottleneck''] conflict_text
             then severity_indicators + 1 else severity_indicators)
      in severity_indicators)"

definition severity_of_indicators :: "nat \<Rightarrow> ConflictSeverity" where
  "severity_of_indicators severity_indicators =
     (if severity_indicators \<ge> 4 then CRITICAL
      else if severity_indicators \<ge> 2 then HIGH
      else if severity_indicators \<ge> 1 then MODERATE
      else LOW)"

definition classify_conflict ::
  "pydict \<Rightarrow> pydict \<Rightarrow> response \<Rightarrow> response \<Rightarrow> ConflictType \<times> ConflictSeverity" where
  "classify_conflict conflicts1 conflicts2 response1 response2 =
     (let conflict_text = conflict_text_of conflicts1 conflicts2
      in (classify_type conflict_text,
          severity_of_indicators (severity_indicators_of conflict_text)))"

definition generate_conflict_description :: "response \<Rightarrow> response \<Rightarrow> ConflictType \<Rightarrow> string" where
  "generate_conflict_description response1 response2 ct =
     (let agent1 = get_or (d_agent_name response1) ''Agent 1'';
          agent2 = get_or (d_agent_name response2) ''Agent 2''
      in case ct of
           ARCHITECTURE_DISAGREEMENT \<Rightarrow>
             agent1 @ '' and '' @ agent2 @ '' have conflicting architectural recommendations''
         | TECHNOLOGY_CHOICE_CONFLICT \<Rightarrow>
             agent1 @ '' and '' @ agent2 @ '' recommend different technology choices''
         | SECURITY_VS_PERFORMANCE \<Rightarrow>
             ''Security requirements from '' @ agent1 @ '' conflict with performance goals from '' @ agent2
         | IMPLEMENTATION_APPROACH_CONFLICT \<Rightarrow>
             agent1 @ '' and '' @ agent2 @ '' suggest incompatible implementation approaches''
         | DESIGN_PATTERN_DISAGREEMENT \<Rightarrow>
             agent1 @ '' and '' @ agent2 @ '' recommend different design patterns''
         | SCOPE_OVERLAP \<Rightarrow>
             agent1 @ '' and '' @ agent2 @ '' have overlapping scope with conflicting recommendations'')"

definition identify_conflict_root_cause :: "response \<Rightarrow> response \<Rightarrow> ConflictType \<Rightarrow> string" where
  "identify_conflict_root_cause response1 response2 ct =
     (case ct of
        ARCHITECTURE_DISAGREEMENT \<Rightarrow> ''Different architectural philosophies and trade-off priorities''
      | TECHNOLOGY_CHOICE_CONFLICT \<Rightarrow> ''Varying technology expertise and preference frameworks''
      | SECURITY_VS_PERFORMANCE \<Rightarrow>
          ''Fundamental trade-off between security requirements and performance optimization''
      | IMPLEMENTATION_APPROACH_CONFLICT \<Rightarrow>
          ''Different implementation methodologies and development practices''
      | DESIGN_PATTERN_DISAGREEMENT \<Rightarrow>
          ''Varying interpretation of appropriate design patterns for the context''
      | SCOPE_OVERLAP \<Rightarrow> ''Unclear agent responsibility boundaries and scope definitions'')"

definition identify_technical_conflict_areas :: "response \<Rightarrow> response \<Rightarrow> string list" where
  "identify_technical_conflict_areas response1 response2 =
     concat (map (\<lambda>decision1.
        let decision_area = lower (get_or (decision decision1) [])
        in concat (map (\<lambda>decision2.
             if decision decision1 = decision decision2
                \<and> recommendation decision1 \<noteq> recommendation decision2
             then [decision_area] else [])
           (d_technical_decisions response2)))
       (d_technical_decisions response1))"

text \<open>\<open>f"{response1.get('result', {})} {response2.get('result', {})}".lower()\<close>\<close>

definition combined_result_text :: "response \<Rightarrow> response \<Rightarrow> string" where
  "combined_result_text response1 response2 =
     lower (str (PDict (d_result response1)) @ '' '' @ str (PDict (d_result response2)))"

definition assess_conflict_architecture_impact :: "response \<Rightarrow> response \<Rightarrow> string" where
  "assess_conflict_architecture_impact response1 response2 =
     (let arch_keywords = [''architecture'', ''design'', ''pattern'', ''structure'', ''component''];
          combined_text = combined_result_text response1 response2;
          arch_mentions = count_in arch_keywords combined_text
      in if arch_mentions \<ge> 3 then ''high - fundamental architectural decisions affected''
         else if arch_mentions \<ge> 1 then ''medium - architectural components affected''
         else ''low - implementation details only'')"

definition analyze_performance_implications :: "response \<Rightarrow> response \<Rightarrow> performance_implications_rec" where
  "analyze_performance_implications response1 response2 =
     (let perf_keywords = [''performance'', ''speed'', ''latency'', ''throughput'', ''optimization'', ''bottleneck''];
          combined_text = combined_result_text response1 response2;
          perf_impact = count_in perf_keywords combined_text
      in \<lparr> perf_impact_level =
             (if perf_impact \<ge> 2 then ''high'' else if perf_impact \<ge> 1 then ''medium'' else ''low''),
           perf_areas_affected = filter (\<lambda>keyword. isin keyword combined_text) perf_keywords,
           optimization_required = (perf_impact \<ge> 2),
           performance_testing_needed = (perf_impact \<ge> 1) \<rparr>)"

definition analyze_security_implications :: "response \<Rightarrow> response \<Rightarrow> security_implications_rec" where
  "analyze_security_implications response1 response2 =
     (let security_keywords = [''security'', ''authentication'', ''authorization'', ''encryption'', ''vulnerability'', ''threat''];
          combined_text = combined_result_text response1 response2;
          security_impact = count_in security_keywords combined_text
      in \<lparr> sec_impact_level =
             (if security_impact \<ge> 3 then ''critical'' else if security_impact \<ge> 2 then ''high''
              else if security_impact \<ge> 1 then ''medium'' else ''low''),
           security_areas_affected = filter (\<lambda>keyword. isin keyword combined_text) security_keywords,
           security_review_required = (security_impact \<ge> 1),
           threat_model_update_needed = (security_impact \<ge> 2) \<rparr>)"

definition generate_resolution_options :: "response \<Rightarrow> response \<Rightarrow> ConflictType \<Rightarrow> resolution_option list" where
  "generate_resolution_options response1 response2 ct =
     (let agent1 = get_or (d_agent_name response1) ''Agent 1'';
          agent2 = get_or (d_agent_name response2) ''Agent 2''
      in if ct = ARCHITECTURE_DISAGREEMENT then
           [\<lparr> option_name = ''senior_architect_decision'',
              option_description = ''Senior architect makes final architectural decision'',
              pros = [''Clear decision authority'', ''Architectural consistency''],
              cons = [''May not consider all specialized perspectives''],
              implementation_effort = ''low'' \<rparr>,
            \<lparr> option_name = ''hybrid_approach'',
              option_description = ''Combine elements from both '' @ agent1 @ '' and '' @ agent2 @ '' approaches'',
              pros = [''Incorporates multiple perspectives'', ''Potentially optimal solution''],
              cons = [''Increased complexity'', ''Potential inconsistencies''],
              implementation_effort = ''medium'' \<rparr>,
            \<lparr> option_name = ''prototype_evaluation'',
              option_description = ''Build small prototypes to evaluate both approaches'',
              pros = [''Data-driven decision'', ''Validates assumptions''],
              cons = [''Additional development time'', ''Resource overhead''],
              implementation_effort = ''high'' \<rparr>]
         else if ct = SECURITY_VS_PERFORMANCE then
           [\<lparr> option_name = ''security_priority'',
              option_description = ''Prioritize security requirements, optimize performance within constraints'',
              pros = [''Security compliance maintained'', ''Risk mitigation''],
              cons = [''Potential performance limitations''],
              implementation_effort = ''medium'' \<rparr>,
            \<lparr> option_name = ''performance_priority'',
              option_description =
                ''Prioritize performance, implement security measures that don'' @ [CHR 0x27]
                  @ ''t impact performance'',
              pros = [''Optimal performance maintained'', ''User experience preserved''],
              cons = [''Security risks may remain'', ''Compliance challenges''],
              implementation_effort = ''medium'' \<rparr>,
            \<lparr> option_name = ''balanced_approach'',
              option_description = ''Find middle ground with acceptable performance and security'',
              pros = [''Balanced solution'', ''Stakeholder compromise''],
              cons = [''May not fully optimize either aspect''],
              implementation_effort = ''high'' \<rparr>]
         else
           [\<lparr> option_name = ''defer_to_'' @ agent1,
              option_description = ''Accept '' @ agent1 @ '' recommendations'',
              pros = [agent1 @ '' domain expertise''],
              cons = [''May miss '' @ agent2 @ '' insights''],
              implementation_effort = ''low'' \<rparr>,
            \<lparr> option_name = ''defer_to_'' @ agent2,
              option_description = ''Accept '' @ agent2 @ '' recommendations'',
              pros = [agent2 @ '' domain expertise''],
              cons = [''May miss '' @ agent1 @ '' insights''],
              implementation_effort = ''low'' \<rparr>,
            \<lparr> option_name = ''consensus_building'',
              option_description = ''Facilitate discussion to build consensus'',
              pros = [''Collaborative solution'', ''Buy-in from all agents''],
              cons = [''Time-intensive'', ''May not reach agreement''],
              implementation_effort = ''medium'' \<rparr>])"

definition requires_stakeholder_input :: "ConflictType \<Rightarrow> ConflictSeverity \<Rightarrow> bool" where
  "requires_stakeholder_input ct sev =
     (if sev = CRITICAL then True
      else if sev = HIGH \<and> ct \<in> set [ARCHITECTURE_DISAGREEMENT, SECURITY_VS_PERFORMANCE] then True
      else False)"

text \<open>
  \<open>_detect_response_conflict\<close>. It reads one thing of the engine instance: the length of
  \<open>self.conflict_history\<close>, which ends the conflict id. \<open>None\<close> is no conflict.
\<close>

definition detect_response_conflict ::
  "nat \<Rightarrow> response \<Rightarrow> response \<Rightarrow> pydict \<Rightarrow> ConflictAnalysis option" where
  "detect_response_conflict len_conflict_history response1 response2 context =
     (let agent1 = get_or (d_agent_name response1) ''unknown'';
          agent2 = get_or (d_agent_name response2) ''unknown'';
          conflicts1 = d_potential_conflicts response1;
          conflicts2 = d_potential_conflicts response2
      in if conflicts1 \<noteq> [] \<or> conflicts2 \<noteq> [] then
           (case classify_conflict conflicts1 conflicts2 response1 response2 of
              (ct, sev) \<Rightarrow>
                if sev \<noteq> LOW then
                  Some \<lparr> conflict_id =
                           ''conflict_'' @ agent1 @ ''_'' @ agent2 @ ''_''
                             @ string_of_nat len_conflict_history,
                         agents_involved = [agent1, agent2],
                         conflict_type = ct,
                         severity = sev,
                         description = generate_conflict_description response1 response2 ct,
                         root_cause = identify_conflict_root_cause response1 response2 ct,
                         technical_areas = identify_technical_conflict_areas response1 response2,
                         architecture_impact = assess_conflict_architecture_impact response1 response2,
                         performance_implications = analyze_performance_implications response1 response2,
                         security_implications = analyze_security_implications response1 response2,
                         resolution_options = generate_resolution_options response1 response2 ct,
                         stakeholder_input_required = requires_stakeholder_input ct sev \<rparr>
                else None)
         else None)"

text \<open>
  The pairs of the two nested loops
  \<open>for i, response1 in enumerate(rs): for j, response2 in enumerate(rs[i+1:], i+1)\<close>,
  in the order the loops visit them, each response with its index.
\<close>

fun index_pairs :: "(nat \<times> 'a) list \<Rightarrow> ((nat \<times> 'a) \<times> (nat \<times> 'a)) list" where
  "index_pairs [] = []"
| "index_pairs (x # xs) = map (Pair x) xs @ index_pairs xs"

definition response_pairs :: "'a list \<Rightarrow> ((nat \<times> 'a) \<times> (nat \<times> 'a)) list" where
  "response_pairs rs = index_pairs (enumerate 0 rs)"

text \<open>The index pairs the two loops visit for a list of \<open>n\<close> responses, in their order.\<close>

definition loop_pairs :: "nat \<Rightarrow> (nat \<times> nat) list" where
  "loop_pairs n = concat (map (\<lambda>i. map (Pair i) [Suc i..<n]) [0..<n])"

text \<open>\<open>_analyze_conflicts\<close>\<close>

definition analyze_conflicts :: "nat \<Rightarrow> response list \<Rightarrow> pydict \<Rightarrow> ConflictAnalysis list" where
  "analyze_conflicts len_conflict_history agent_responses request_context =
     List.map_filter
       (\<lambda>p. detect_response_conflict len_conflict_history (snd (fst p)) (snd (snd p)) request_context)
       (response_pairs agent_responses)"

subsection \<open>The severity rule, as the specification words it\<close>

text \<open>
  The three indicator groups of the severity rule, the number of groups a text matches,
  the additive total (+2, +2, +1) and the order low < moderate < high < critical.
\<close>

definition high_impact_hit :: "string \<Rightarrow> bool" where
  "high_impact_hit text = any_in [''security'', ''architecture'', ''database''] text"

definition blocking_hit :: "string \<Rightarrow> bool" where
  "blocking_hit text = any_in [''cannot'', ''incompatible'', ''conflicts'', ''contradicts''] text"

definition performance_hit :: "string \<Rightarrow> bool" where
  "performance_hit text = any_in [''performance'', ''scalability'', ''bottleneck''] text"

definition matched_groups :: "string \<Rightarrow> nat" where
  "matched_groups text =
     length (filter id [high_impact_hit text, blocking_hit text, performance_hit text])"

definition additive_total :: "string \<Rightarrow> nat" where
  "additive_total text =
     (if high_impact_hit text then 2 else 0) + (if blocking_hit text then 2 else 0)
       + (if performance_hit text then 1 else 0)"

fun severity_rank :: "ConflictSeverity \<Rightarrow> nat" where
  "severity_rank LOW = 0"
| "severity_rank MODERATE = 1"
| "severity_rank HIGH = 2"
| "severity_rank CRITICAL = 3"

text \<open>The merged, printed and lower-cased conflict maps of two responses.\<close>

definition merged_conflict_text :: "response \<Rightarrow> response \<Rightarrow> string" where
  "merged_conflict_text r1 r2 =
     lower (str (PDict (dict_update (d_potential_conflicts r1) (d_potential_conflicts r2))))"

subsection \<open>Example responses\<close>

text \<open>The two responses of the engine's own usage example, reduced to the entries read here.\<close>

definition empty_response :: response where
  "empty_response =
     \<lparr> d_status = None, d_agent_name = None, d_confidence = None, d_result = [],
       d_technical_decisions = [], d_potential_conflicts = [], d_recommendations = [] \<rparr>"

definition architect_reply :: response where
  "architect_reply =
     empty_response
       \<lparr> d_status := Some ''success'', d_agent_name := Some ''senior-architect'',
         d_potential_conflicts := [(''complexity'', PStr ''Microservices add operational complexity'')] \<rparr>"

definition security_reply :: response where
  "security_reply =
     empty_response
       \<lparr> d_status := Some ''success'', d_agent_name := Some ''security-consultant'',
         d_potential_conflicts := [(''performance'', PStr ''Security measures may impact API performance'')] \<rparr>"

text \<open>Two responses whose conflict maps each mention one indicator group.\<close>

definition security_only_reply :: response where
  "security_only_reply =
     empty_response \<lparr> d_status := Some ''success'', d_agent_name := Some ''security-consultant'',
                      d_potential_conflicts := [(''area'', PStr ''security'')] \<rparr>"

definition performance_only_reply :: response where
  "performance_only_reply =
     empty_response \<lparr> d_status := Some ''success'', d_agent_name := Some ''backend-builder'',
                      d_potential_conflicts := [(''area'', PStr ''performance'')] \<rparr>"

section \<open>The intelligence engine: quality assessment\<close>

datatype QualityMetricType =
    CODE_COMPLEXITY
  | TEST_COVERAGE
  | TECHNICAL_DEBT
  | SECURITY_SCORE
  | PERFORMANCE_INDEX
  | MAINTAINABILITY
  | DOCUMENTATION_COVERAGE

record QualityMetrics =
  metric_type :: QualityMetricType
  score :: rat
  threshold :: rat
  metric_status :: string
  details :: pydict
  improvement_suggestions :: "string list"

text \<open>\<open>str(response.get('result', {})).lower()\<close>\<close>

definition result_text_of :: "response \<Rightarrow> string" where
  "result_text_of response = lower (str (PDict (d_result response)))"

text \<open>\<open>"pass" if score >= threshold else "warning" if score >= warn else "fail"\<close>\<close>

definition status_of :: "rat \<Rightarrow> rat \<Rightarrow> rat \<Rightarrow> string" where
  "status_of s pass_at warn_at =
     (if s \<ge> pass_at then ''pass'' else if s \<ge> warn_at then ''warning'' else ''fail'')"

text \<open>\<open>_assess_code_complexity\<close>: the body of the loop over the responses, then the function.\<close>

definition complexity_of_response :: "nat \<times> pydict \<Rightarrow> response \<Rightarrow> nat \<times> pydict" where
  "complexity_of_response acc response =
     (let complexity_indicators = fst acc;
          complexity_details = snd acc;
          result_text = result_text_of response;
          complexity_indicators =
            (if isin ''complex'' result_text \<or> isin ''complicated'' result_text
             then complexity_indicators + 1 else complexity_indicators);
          complexity_indicators =
            (if isin ''microservices'' result_text then complexity_indicators + 2
             else complexity_indicators);
          complexity_details =
            (if isin ''microservices'' result_text
               then dict_set complexity_details ''architecture_complexity'' (PStr ''high'')
             else if isin ''monolith'' result_text
               then dict_set complexity_details ''architecture_complexity'' (PStr ''low'')
             else complexity_details);
          complexity_indicators =
            foldl (\<lambda>n d. if any_in [''complex'', ''intricate'', ''sophisticated'']
                                 (lower (str (decision_dict d)))
                          then n + 1 else n)
              complexity_indicators (d_technical_decisions response)
      in (complexity_indicators, complexity_details))"

definition assess_code_complexity :: "response list \<Rightarrow> pydict \<Rightarrow> QualityMetrics" where
  "assess_code_complexity agent_responses request_context =
     (let acc = foldl complexity_of_response (0, []) agent_responses;
          complexity_indicators = fst acc;
          complexity_details = snd acc;
          base_score = max (1 / 10) (1 - of_nat complexity_indicators * (2 / 10));
          improvement_suggestions =
            (if complexity_indicators \<ge> 3
             then [''Consider simplifying architecture design'',
                   ''Implement clear component boundaries'',
                   ''Review complexity of business logic'']
             else [])
      in \<lparr> metric_type = CODE_COMPLEXITY,
           score = base_score,
           threshold = 6 / 10,
           metric_status = status_of base_score (6 / 10) (4 / 10),
           details = dict_update [(''complexity_indicators'', PInt (int complexity_indicators))]
                       complexity_details,
           improvement_suggestions = improvement_suggestions \<rparr>)"

text \<open>\<open>_assess_security_score\<close>\<close>

definition assess_security_score :: "response list \<Rightarrow> pydict \<Rightarrow> QualityMetrics" where
  "assess_security_score agent_responses request_context =
     (let security_response =
            find (\<lambda>response. d_agent_name response = Some ''security-consultant'') agent_responses;
          acc =
            (case security_response of
               Some sr \<Rightarrow>
                 (let res = d_result sr;
                      s = 5 / 10;
                      dt = [];
                      s = (if ''security_analysis'' \<in> set (keys res) then s + 2 / 10 else s);
                      dt = (if ''security_analysis'' \<in> set (keys res)
                            then dict_set dt ''security_analysis_complete'' (PBool True) else dt);
                      s = (if ''threat_model'' \<in> set (keys res) then s + 2 / 10 else s);
                      dt = (if ''threat_model'' \<in> set (keys res)
                            then dict_set dt ''threat_modeling_complete'' (PBool True) else dt);
                      s = (if ''compliance_requirements'' \<in> set (keys res) then s + 1 / 10 else s);
                      dt = (if ''compliance_requirements'' \<in> set (keys res)
                            then dict_set dt ''compliance_addressed'' (PBool True) else dt);
                      s = foldl (\<lambda>s d. if isin ''security'' (lower (get_or (decision d) []))
                                       then s + 1 / 10 else s)
                            s (d_technical_decisions sr)
                  in (s, dt, []))
             | None \<Rightarrow> (3 / 10, [], [''Include security consultant in development process'']));
          security_score = min 1 (fst acc);
          security_details = fst (snd acc);
          improvement_suggestions = snd (snd acc);
          improvement_suggestions =
            (if security_score < 8 / 10
             then improvement_suggestions @
                  [''Conduct comprehensive security analysis'',
                   ''Implement threat modeling'',
                   ''Review security technical decisions'']
             else improvement_suggestions)
      in \<lparr> metric_type = SECURITY_SCORE,
           score = security_score,
           threshold = 8 / 10,
           metric_status = status_of security_score (8 / 10) (6 / 10),
           details = security_details,
           improvement_suggestions = improvement_suggestions \<rparr>)"

text \<open>\<open>_assess_test_coverage\<close>\<close>

definition test_coverage_of_response :: "rat \<times> pydict \<Rightarrow> response \<Rightarrow> rat \<times> pydict" where
  "test_coverage_of_response acc response =
     (let test_score = fst acc;
          test_details = snd acc;
          result_text = result_text_of response;
          test_score = (if isin ''test'' result_text then test_score + 2 / 10 else test_score);
          test_score = (if isin ''unit test'' result_text then test_score + 2 / 10 else test_score);
          test_details =
            (if isin ''unit test'' result_text
             then dict_set test_details ''unit_testing_mentioned'' (PBool True) else test_details);
          test_score =
            (if isin ''integration test'' result_text then test_score + 2 / 10 else test_score);
          test_details =
            (if isin ''integration test'' result_text
             then dict_set test_details ''integration_testing_mentioned'' (PBool True)
             else test_details);
          test_score = (if isin ''coverage'' result_text then test_score + 2 / 10 else test_score);
          test_details =
            (if isin ''coverage'' result_text
             then dict_set test_details ''coverage_requirements_mentioned'' (PBool True)
             else test_details);
          test_score =
            foldl (\<lambda>s d. if isin ''test'' (lower (get_or (decision d) [])) then s + 2 / 10 else s)
              test_score (d_technical_decisions response)
      in (test_score, test_details))"

definition assess_test_coverage :: "response list \<Rightarrow> pydict \<Rightarrow> QualityMetrics" where
  "assess_test_coverage agent_responses request_context =
     (let acc = foldl test_coverage_of_response (0, []) agent_responses;
          test_score = min 1 (fst acc);
          test_details = snd acc;
          improvement_suggestions =
            (if test_score < 6 / 10
             then [''Include comprehensive testing strategy'',
                   ''Define unit testing requirements'',
                   ''Establish integration testing approach'',
                   ''Set test coverage targets'']
             else [])
      in \<lparr> metric_type = TEST_COVERAGE,
           score = test_score,
           threshold = 6 / 10,
           metric_status = status_of test_score (6 / 10) (4 / 10),
           details = test_details,
           improvement_suggestions = improvement_suggestions \<rparr>)"

text \<open>\<open>_assess_technical_debt\<close>\<close>

definition technical_debt_of_response :: "rat \<times> pydict \<Rightarrow> response \<Rightarrow> rat \<times> pydict" where
  "technical_debt_of_response acc response =
     (let debt_risk = fst acc;
          debt_details = snd acc;
          result_text = result_text_of response;
          temp = (isin ''quick fix'' result_text \<or> isin ''temporary'' result_text);
          debt_risk = (if temp then debt_risk + 2 / 10 else debt_risk);
          debt_details =
            (if temp then dict_set debt_details ''temporary_solutions_mentioned'' (PBool True)
             else debt_details);
          legacy = (isin ''legacy'' result_text \<and> isin ''maintain'' result_text);
          debt_risk = (if legacy then debt_risk + 1 / 10 else debt_risk);
          debt_details =
            (if legacy then dict_set debt_details ''legacy_maintenance_required'' (PBool True)
             else debt_details);
          workaround = isin ''workaround'' result_text;
          debt_risk = (if workaround then debt_risk + 2 / 10 else debt_risk);
          debt_details =
            (if workaround then dict_set debt_details ''workarounds_mentioned'' (PBool True)
             else debt_details);
          refactor = (isin ''refactor'' result_text \<or> isin ''clean'' result_text);
          debt_risk = (if refactor then debt_risk - 1 / 10 else debt_risk);
          debt_details =
            (if refactor then dict_set debt_details ''refactoring_mentioned'' (PBool True)
             else debt_details);
          best = (isin ''best practices'' result_text \<or> isin ''clean code'' result_text);
          debt_risk = (if best then debt_risk - 1 / 10 else debt_risk);
          debt_details =
            (if best then dict_set debt_details ''best_practices_mentioned'' (PBool True)
             else debt_details)
      in (debt_risk, debt_details))"

definition assess_technical_debt :: "response list \<Rightarrow> pydict \<Rightarrow> QualityMetrics" where
  "assess_technical_debt agent_responses request_context =
     (let acc = foldl technical_debt_of_response (0, []) agent_responses;
          debt_risk = fst acc;
          debt_details = snd acc;
          debt_score = max 0 (1 - debt_risk);
          improvement_suggestions =
            (if debt_score < 7 / 10
             then [''Avoid temporary solutions and workarounds'',
                   ''Plan for code refactoring'',
                   ''Follow clean code principles'',
                   ''Document technical debt for future resolution'']
             else [])
      in \<lparr> metric_type = TECHNICAL_DEBT,
           score = debt_score,
           threshold = 7 / 10,
           metric_status = status_of debt_score (7 / 10) (5 / 10),
           details = debt_details,
           improvement_suggestions = improvement_suggestions \<rparr>)"

text \<open>\<open>_assess_maintainability\<close>\<close>

definition maintainability_of_response :: "rat \<times> pydict \<Rightarrow> response \<Rightarrow> rat \<times> pydict" where
  "maintainability_of_response acc response =
     (let maintainability_score = fst acc;
          maintainability_details = snd acc;
          result_text = result_text_of response;
          doc = isin ''documentation'' result_text;
          maintainability_score = (if doc then maintainability_score + 1 / 10 else maintainability_score);
          maintainability_details =
            (if doc then dict_set maintainability_details ''documentation_mentioned'' (PBool True)
             else maintainability_details);
          modular = (isin ''modular'' result_text \<or> isin ''component'' result_text);
          maintainability_score =
            (if modular then maintainability_score + 1 / 10 else maintainability_score);
          maintainability_details =
            (if modular then dict_set maintainability_details ''modular_design_mentioned'' (PBool True)
             else maintainability_details);
          clean = (isin ''clean'' result_text \<and> isin ''code'' result_text);
          maintainability_score = (if clean then maintainability_score + 1 / 10 else maintainability_score);
          maintainability_details =
            (if clean then dict_set maintainability_details ''clean_code_mentioned'' (PBool True)
             else maintainability_details);
          pattern = isin ''pattern'' result_text;
          maintainability_score =
            (if pattern then maintainability_score + 1 / 10 else maintainability_score);
          maintainability_details =
            (if pattern then dict_set maintainability_details ''design_patterns_mentioned'' (PBool True)
             else maintainability_details);
          standard = (isin ''standard'' result_text \<or> isin ''convention'' result_text);
          maintainability_score =
            (if standard then maintainability_score + 1 / 10 else maintainability_score);
          maintainability_details =
            (if standard then dict_set maintainability_details ''standards_mentioned'' (PBool True)
             else maintainability_details);
          maintainability_score =
            foldl (\<lambda>s d. if any_in [''maintainable'', ''clean'', ''modular'', ''standard'']
                                 (lower (str (decision_dict d)))
                          then s + 1 / 10 else s)
              maintainability_score (d_technical_decisions response)
      in (maintainability_score, maintainability_details))"

definition assess_maintainability :: "response list \<Rightarrow> pydict \<Rightarrow> QualityMetrics" where
  "assess_maintainability agent_responses request_context =
     (let acc = foldl maintainability_of_response (5 / 10, []) agent_responses;
          maintainability_score = min 1 (fst acc);
          maintainability_details = snd acc;
          improvement_suggestions =
            (if maintainability_score < 7 / 10
             then [''Include comprehensive documentation requirements'',
                   ''Design for modularity and component reuse'',
                   ''Follow clean code principles and standards'',
                   ''Implement consistent design patterns'']
             else [])
      in \<lparr> metric_type = MAINTAINABILITY,
           score = maintainability_score,
           threshold = 7 / 10,
           metric_status = status_of maintainability_score (7 / 10) (5 / 10),
           details = maintainability_details,
           improvement_suggestions = improvement_suggestions \<rparr>)"

text \<open>\<open>_calculate_quality_metric\<close>: \<open>None\<close> for the two metric types with no assessor.\<close>

definition calculate_quality_metric ::
  "QualityMetricType \<Rightarrow> response list \<Rightarrow> pydict \<Rightarrow> QualityMetrics option" where
  "calculate_quality_metric mt agent_responses request_context =
     (if mt = CODE_COMPLEXITY then Some (assess_code_complexity agent_responses request_context)
      else if mt = SECURITY_SCORE then Some (assess_security_score agent_responses request_context)
      else if mt = TEST_COVERAGE then Some (assess_test_coverage agent_responses request_context)
      else if mt = TECHNICAL_DEBT then Some (assess_technical_debt agent_responses request_context)
      else if mt = MAINTAINABILITY then Some (assess_maintainability agent_responses request_context)
      else None)"

text \<open>\<open>_assess_code_quality\<close>: one metric per member of the enumeration, in its order.\<close>

definition all_metric_types :: "QualityMetricType list" where
  "all_metric_types =
     [CODE_COMPLEXITY, TEST_COVERAGE, TECHNICAL_DEBT, SECURITY_SCORE, PERFORMANCE_INDEX,
      MAINTAINABILITY, DOCUMENTATION_COVERAGE]"

definition assess_code_quality :: "response list \<Rightarrow> pydict \<Rightarrow> QualityMetrics list" where
  "assess_code_quality agent_responses request_context =
     List.map_filter (\<lambda>mt. calculate_quality_metric mt agent_responses request_context)
       all_metric_types"

text \<open>A response whose result mentions refactoring, and nothing else.\<close>

definition refactor_response :: response where
  "refactor_response = empty_response \<lparr> d_result := [(''plan'', PStr ''refactor'')] \<rparr>"

section \<open>The intelligence engine: overlap detection\<close>

record overlap_impact =
  development_delay_risk :: string
  decision_complexity :: string
  coordination_overhead :: rat
  quality_impact :: string
  areas_needing_clarification :: "string list"

record AgentOverlap =
  agents :: "string list"
  overlap_type :: string
  overlap_areas :: "string list"
  confidence :: rat
  resolution_strategy :: string
  impact_assessment :: overlap_impact
  code_areas_affected :: "string list"
  architectural_impact :: string
  technical_risk_level :: string

text \<open>\<open>s.split()\<close>: the maximal runs of characters that are not white space.\<close>

definition is_space :: "char \<Rightarrow> bool" where
  "is_space c = (let n = (of_char c :: nat) in n = 32 \<or> (9 \<le> n \<and> n \<le> 13) \<or> (28 \<le> n \<and> n \<le> 31))"

fun split_acc :: "string \<Rightarrow> string \<Rightarrow> string list" where
  "split_acc cur [] = (if cur = [] then [] else [cur])"
| "split_acc cur (c # cs) =
     (if is_space c then (if cur = [] then split_acc [] cs else cur # split_acc [] cs)
      else split_acc (cur @ [c]) cs)"

definition split :: "string \<Rightarrow> string list" where
  "split s = split_acc [] s"

text \<open>\<open>_decisions_overlap\<close>\<close>

definition decisions_overlap :: "technical_decision \<Rightarrow> technical_decision \<Rightarrow> bool" where
  "decisions_overlap decision1 decision2 =
     (let decision1_text =
            lower (get_or (decision decision1) [] @ '' '' @ get_or (recommendation decision1) []);
          decision2_text =
            lower (get_or (decision decision2) [] @ '' '' @ get_or (recommendation decision2) []);
          words1 = remdups (split decision1_text);
          words2 = remdups (split decision2_text);
          common = filter (\<lambda>w. w \<in> set words2) words1;
          overlap_ratio =
            (of_nat (length common) :: rat)
              / of_nat (max (max (length words1) (length words2)) 1)
      in overlap_ratio > 3 / 10)"

definition development_topics :: "string list" where
  "development_topics =
     [''architecture'', ''database'', ''api'', ''security'', ''performance'',
      ''testing'', ''deployment'', ''frontend'', ''backend'', ''authentication'',
      ''authorization'', ''caching'', ''monitoring'', ''logging'']"

text \<open>
  \<open>_find_overlap_areas\<close>. The shared recommendation keys are a Python set, whose
  iteration order is not fixed; they are listed here in the order of the first response.
\<close>

definition find_overlap_areas :: "response \<Rightarrow> response \<Rightarrow> string list" where
  "find_overlap_areas response1 response2 =
     (let decisions1 = d_technical_decisions response1;
          decisions2 = d_technical_decisions response2;
          decision_areas =
            concat (map (\<lambda>decision1.
              concat (map (\<lambda>decision2.
                if decisions_overlap decision1 decision2
                then [''technical_decision: '' @ get_or (decision decision1) ''unknown'']
                else []) decisions2)) decisions1);
          result1 = result_text_of response1;
          result2 = result_text_of response2;
          topic_areas =
            map (\<lambda>topic. ''domain_expertise: '' @ topic)
              (filter (\<lambda>topic. isin topic result1 \<and> isin topic result2) development_topics);
          recommendations1 = d_recommendations response1;
          recommendations2 = d_recommendations response2;
          common_keys = filter (\<lambda>k. k \<in> set (keys recommendations2)) (keys recommendations1);
          recommendation_areas = map (\<lambda>key. ''recommendation_area: '' @ key) common_keys
      in decision_areas @ topic_areas @ recommendation_areas)"

definition classify_overlap_type :: "string list \<Rightarrow> string" where
  "classify_overlap_type areas =
     (if list_ex (isin ''technical_decision'') areas then ''decision_overlap''
      else if list_ex (isin ''domain_expertise'') areas then ''expertise_overlap''
      else if list_ex (isin ''recommendation_area'') areas then ''recommendation_overlap''
      else ''general_overlap'')"

definition calculate_overlap_confidence :: "response \<Rightarrow> response \<Rightarrow> string list \<Rightarrow> rat" where
  "calculate_overlap_confidence response1 response2 areas =
     (let base_confidence = min (9 / 10) (of_nat (length areas) * (2 / 10));
          quality1 = get_or (d_confidence response1) (5 / 10);
          quality2 = get_or (d_confidence response2) (5 / 10);
          quality_boost = (quality1 + quality2) / 2 * (2 / 10)
      in min 1 (base_confidence + quality_boost))"

definition agent_hierarchy :: "string \<Rightarrow> nat" where
  "agent_hierarchy agent =
     get_or (map_of [(''senior-architect'', 5), (''security-consultant'', 4), (''ux-strategist'', 3),
                     (''backend-builder'', 2), (''frontend-builder'', 2)] agent) 1"

definition determine_resolution_strategy :: "string \<Rightarrow> string \<Rightarrow> string list \<Rightarrow> string" where
  "determine_resolution_strategy agent1 agent2 areas =
     (let priority1 = agent_hierarchy agent1;
          priority2 = agent_hierarchy agent2;
          areas_text = lower (str (PList (map PStr areas)))
      in if priority1 > priority2 then ''defer_to_'' @ agent1
         else if priority2 > priority1 then ''defer_to_'' @ agent2
         else if isin ''security'' areas_text then ''security_priority''
         else if isin ''architecture'' areas_text then ''architecture_priority''
         else ''consensus_building'')"

definition assess_overlap_impact :: "response \<Rightarrow> response \<Rightarrow> string list \<Rightarrow> overlap_impact" where
  "assess_overlap_impact response1 response2 areas =
     \<lparr> development_delay_risk = (if length areas > 2 then ''medium'' else ''low''),
       decision_complexity =
         (if list_ex (isin ''technical_decision'') areas then ''high'' else ''medium''),
       coordination_overhead = of_nat (length areas) * (1 / 10),
       quality_impact = (if length areas \<le> 2 then ''positive'' else ''neutral''),
       areas_needing_clarification = areas \<rparr>"

definition identify_affected_code_areas :: "response \<Rightarrow> response \<Rightarrow> string list" where
  "identify_affected_code_areas response1 response2 =
     (let result1_text = result_text_of response1;
          result2_text = result_text_of response2;
          code_areas =
            [''authentication'', ''authorization'', ''database'', ''api'', ''frontend'',
             ''backend'', ''middleware'', ''routing'', ''validation'', ''testing'',
             ''configuration'', ''logging'', ''monitoring'', ''deployment'']
      in filter (\<lambda>area. isin area result1_text \<and> isin area result2_text) code_areas)"

definition assess_architectural_impact :: "response \<Rightarrow> response \<Rightarrow> string" where
  "assess_architectural_impact response1 response2 =
     (let combined_text = combined_result_text response1 response2
      in if any_in [''architecture'', ''design'', ''pattern'', ''structure''] combined_text
           then ''significant - architectural decisions affected''
         else if any_in [''database'', ''api'', ''integration''] combined_text
           then ''moderate - component design affected''
         else ''minimal - implementation details only'')"

definition assess_technical_risk :: "response \<Rightarrow> response \<Rightarrow> string list \<Rightarrow> string" where
  "assess_technical_risk response1 response2 areas =
     (let risk_indicators = 0;
          high_risk_areas = [''security'', ''architecture'', ''database'', ''authentication''];
          risk_indicators =
            foldl (\<lambda>n area_desc. if any_in high_risk_areas (lower area_desc) then n + 2 else n)
              risk_indicators areas;
          medium_risk_areas = [''api'', ''performance'', ''integration''];
          risk_indicators =
            foldl (\<lambda>n area_desc. if any_in medium_risk_areas (lower area_desc) then n + 1 else n)
              risk_indicators areas
      in if risk_indicators \<ge> (4::nat) then ''high''
         else if risk_indicators \<ge> 2 then ''medium''
         else ''low'')"

text \<open>The body of the two loops of \<open>_detect_agent_overlaps\<close>, for one pair.\<close>

definition detect_pair_overlap :: "(nat \<times> response) \<times> (nat \<times> response) \<Rightarrow> AgentOverlap option" where
  "detect_pair_overlap p =
     (let i = fst (fst p); response1 = snd (fst p);
          j = fst (snd p); response2 = snd (snd p);
          agent1_name = get_or (d_agent_name response1) (''agent_'' @ string_of_nat i);
          agent2_name = get_or (d_agent_name response2) (''agent_'' @ string_of_nat j);
          areas = find_overlap_areas response1 response2
      in if areas \<noteq> [] then
           Some \<lparr> agents = [agent1_name, agent2_name],
                  overlap_type = classify_overlap_type areas,
                  overlap_areas = areas,
                  confidence = calculate_overlap_confidence response1 response2 areas,
                  resolution_strategy = determine_resolution_strategy agent1_name agent2_name areas,
                  impact_assessment = assess_overlap_impact response1 response2 areas,
                  code_areas_affected = identify_affected_code_areas response1 response2,
                  architectural_impact = assess_architectural_impact response1 response2,
                  technical_risk_level = assess_technical_risk response1 response2 areas \<rparr>
         else None)"

text \<open>\<open>_detect_agent_overlaps\<close>\<close>

definition detect_agent_overlaps :: "response list \<Rightarrow> AgentOverlap list" where
  "detect_agent_overlaps agent_responses =
     List.map_filter detect_pair_overlap (response_pairs agent_responses)"

subsection \<open>Example responses of either status\<close>

definition success_reply :: response where
  "success_reply =
     empty_response
       \<lparr> d_status := Some ''success'', d_agent_name := Some ''security-consultant'',
         d_potential_conflicts := [(''performance'', PStr ''Security measures may impact API performance'')],
         d_recommendations := [(''follow_up_actions'', PStr ''Implement security-consultant recommendations'')] \<rparr>"

definition failed_reply :: response where
  "failed_reply =
     empty_response
       \<lparr> d_status := Some ''failed'', d_agent_name := Some ''backend-builder'',
         d_recommendations := [(''follow_up_actions'', PStr ''Retry the consultation'')] \<rparr>"

section \<open>The intelligence engine: state and entry point\<close>

text \<open>
  The state of an engine instance: the conflict history, the quality-metric history and
  the per-agent performance table (a dictionary, in insertion order). The analysis result
  holds the overlap, conflict and quality entries; the decision-point, optimisation and
  consensus entries of \<open>analyze_agent_responses\<close>, and the decision list they feed, are
  not modelled: they neither read nor write the three parts of the state kept here.
\<close>

record agent_performance =
  total_consultations :: nat
  average_confidence :: rat
  successful_consultations :: nat
  conflict_involvement :: nat

record IntelligenceEngine =
  conflict_history :: "ConflictAnalysis list"
  quality_metrics_history :: "QualityMetrics list"
  agent_performance_tracking :: "(string \<times> agent_performance) list"

record analysis_results =
  overlap_analysis :: "AgentOverlap list"
  conflict_analysis :: "ConflictAnalysis list"
  quality_assessment :: "QualityMetrics list"

text \<open>\<open>IntelligenceEngine()\<close>: a new instance.\<close>

definition new_engine :: IntelligenceEngine where
  "new_engine =
     \<lparr> conflict_history = [], quality_metrics_history = [], agent_performance_tracking = [] \<rparr>"

text \<open>The body of the loop over the responses in \<open>_update_intelligence_state\<close>.\<close>

definition track_response ::
  "ConflictAnalysis list \<Rightarrow> (string \<times> agent_performance) list \<Rightarrow> response
     \<Rightarrow> (string \<times> agent_performance) list" where
  "track_response conflicts tracking response =
     (let agent_name = get_or (d_agent_name response) ''unknown'';
          confidence = get_or (d_confidence response) (5 / 10);
          perf = get_or (dict_get tracking agent_name)
                   \<lparr> total_consultations = 0, average_confidence = 0,
                     successful_consultations = 0, conflict_involvement = 0 \<rparr>;
          total = total_consultations perf + 1;
          perf = perf \<lparr> total_consultations := total \<rparr>;
          perf = perf \<lparr> average_confidence :=
                   (average_confidence perf * (of_nat total - 1) + confidence) / of_nat total \<rparr>;
          perf = (if d_status response = Some ''success''
                  then perf \<lparr> successful_consultations := successful_consultations perf + 1 \<rparr>
                  else perf);
          perf = perf \<lparr> conflict_involvement :=
                   conflict_involvement perf
                     + length (filter (\<lambda>conflict. agent_name \<in> set (agents_involved conflict)) conflicts) \<rparr>
      in dict_set tracking agent_name perf)"

text \<open>\<open>_update_intelligence_state\<close>\<close>

definition update_intelligence_state ::
  "IntelligenceEngine \<Rightarrow> analysis_results \<Rightarrow> response list \<Rightarrow> pydict \<Rightarrow> IntelligenceEngine" where
  "update_intelligence_state engine results agent_responses request_context =
     (let conflicts = conflict_analysis results
      in \<lparr> conflict_history = conflict_history engine @ conflicts,
           quality_metrics_history = quality_metrics_history engine @ quality_assessment results,
           agent_performance_tracking =
             foldl (track_response conflicts) (agent_performance_tracking engine) agent_responses \<rparr>)"

text \<open>\<open>analyze_agent_responses\<close>: the analysis and the engine after it.\<close>

definition analyze_agent_responses ::
  "IntelligenceEngine \<Rightarrow> response list \<Rightarrow> pydict \<Rightarrow> analysis_results \<times> IntelligenceEngine" where
  "analyze_agent_responses engine agent_responses request_context =
     (let results =
            \<lparr> overlap_analysis = detect_agent_overlaps agent_responses,
              conflict_analysis =
                analyze_conflicts (length (conflict_history engine)) agent_responses request_context,
              quality_assessment = assess_code_quality agent_responses request_context \<rparr>
      in (results, update_intelligence_state engine results agent_responses request_context))"

section \<open>The methodology validator: data model\<close>

datatype MethodologyType =
    CLEAN_ARCHITECTURE
  | SOLID_PRINCIPLES
  | OWASP_SECURITY
  | NIST_CYBERSECURITY
  | UX_DESIGN_THINKING
  | REST_API_DESIGN
  | AGILE_DEVELOPMENT
  | TEST_DRIVEN_DEVELOPMENT
  | DOMAIN_DRIVEN_DESIGN
  | MICROSERVICES_PATTERNS

text \<open>\<open>MethodologyType.value\<close>\<close>

fun methodology_value :: "MethodologyType \<Rightarrow> string" where
  "methodology_value CLEAN_ARCHITECTURE = ''clean_architecture''"
| "methodology_value SOLID_PRINCIPLES = ''solid_principles''"
| "methodology_value OWASP_SECURITY = ''owasp_security''"
| "methodology_value NIST_CYBERSECURITY = ''nist_cybersecurity''"
| "methodology_value UX_DESIGN_THINKING = ''ux_design_thinking''"
| "methodology_value REST_API_DESIGN = ''rest_api_design''"
| "methodology_value AGILE_DEVELOPMENT = ''agile_development''"
| "methodology_value TEST_DRIVEN_DEVELOPMENT = ''tdd''"
| "methodology_value DOMAIN_DRIVEN_DESIGN = ''ddd''"
| "methodology_value MICROSERVICES_PATTERNS = ''microservices_patterns''"

text \<open>\<open>ValidationSeverity\<close> (the members carry a prefix: CRITICAL is a conflict severity too).\<close>

datatype ValidationSeverity = V_INFO | V_WARNING | V_ERROR | V_CRITICAL

fun severity_value :: "ValidationSeverity \<Rightarrow> string" where
  "severity_value V_INFO = ''info''"
| "severity_value V_WARNING = ''warning''"
| "severity_value V_ERROR = ''error''"
| "severity_value V_CRITICAL = ''critical''"

record ValidationIssue =
  issue_severity :: ValidationSeverity
  issue_methodology :: MethodologyType
  issue_type :: string
  issue_description :: string
  issue_recommendation :: string

record MethodologyValidationResult =
  agent_name :: string
  methodology_claimed :: string
  validation_score :: rat
  overall_compliance :: string
  issues :: "ValidationIssue list"
  strengths :: "string list"
  improvement_areas :: "string list"
  methodology_consistency :: bool
  expert_framework_adherence :: rat

text \<open>\<open>s.replace("_", " ")\<close>, \<open>s.split("_")\<close>, \<open>s.upper()\<close>\<close>

definition unscore :: "string \<Rightarrow> string" where
  "unscore s = map (\<lambda>c. if c = CHR ''_'' then CHR '' '' else c) s"

fun split_on :: "char \<Rightarrow> string \<Rightarrow> string list" where
  "split_on sep [] = [[]]"
| "split_on sep (c # cs) =
     (if c = sep then [] # split_on sep cs
      else (case split_on sep cs of [] \<Rightarrow> [[c]] | w # ws \<Rightarrow> (c # w) # ws))"

definition upper_char :: "char \<Rightarrow> char" where
  "upper_char c =
     (case map_of (zip ''abcdefghijklmnopqrstuvwxyz'' ''ABCDEFGHIJKLMNOPQRSTUVWXYZ'') c of
        Some d \<Rightarrow> d
      | None \<Rightarrow> c)"

definition upper :: "string \<Rightarrow> string" where
  "upper s = map upper_char s"

text \<open>The last \<open>n\<close> elements, \<open>xs[-n:]\<close>, and the first \<open>n\<close>, \<open>xs[:n]\<close> (which is \<open>take\<close>).\<close>

definition last_n :: "nat \<Rightarrow> 'a list \<Rightarrow> 'a list" where
  "last_n n xs = drop (length xs - n) xs"

text \<open>
  \<open>_extract_full_response_text\<close>: the string and container values of the result, every
  technical decision and every recommendation value, joined by blanks.
\<close>

definition result_text_parts :: "pydict \<Rightarrow> string list" where
  "result_text_parts res =
     concat (map (\<lambda>kv. case snd kv of
                          PStr s \<Rightarrow> [s]
                        | PList vs \<Rightarrow> [str (PList vs)]
                        | PDict d \<Rightarrow> [str (PDict d)]
                        | _ \<Rightarrow> []) res)"

definition extract_full_response_text :: "response \<Rightarrow> string" where
  "extract_full_response_text agent_response =
     join '' ''
       (result_text_parts (d_result agent_response)
        @ map (\<lambda>d. str (decision_dict d)) (d_technical_decisions agent_response)
        @ map (\<lambda>kv. str (snd kv)) (d_recommendations agent_response))"

text \<open>Appending to the three lists of a validation result.\<close>

definition add_issue ::
  "ValidationSeverity \<Rightarrow> MethodologyType \<Rightarrow> string \<Rightarrow> string \<Rightarrow> string
     \<Rightarrow> MethodologyValidationResult \<Rightarrow> MethodologyValidationResult" where
  "add_issue sev m ty descr rec res =
     res \<lparr> issues := issues res @
             [\<lparr> issue_severity = sev, issue_methodology = m, issue_type = ty,
                issue_description = descr, issue_recommendation = rec \<rparr>] \<rparr>"

definition add_strengths :: "string list \<Rightarrow> MethodologyValidationResult \<Rightarrow> MethodologyValidationResult" where
  "add_strengths ss res = res \<lparr> strengths := strengths res @ ss \<rparr>"

definition add_improvements :: "string list \<Rightarrow> MethodologyValidationResult \<Rightarrow> MethodologyValidationResult" where
  "add_improvements ss res = res \<lparr> improvement_areas := improvement_areas res @ ss \<rparr>"

text \<open>The strings of a list that occur in the text, in the list's order.\<close>

definition mentioned :: "string list \<Rightarrow> string \<Rightarrow> string list" where
  "mentioned kws text = filter (\<lambda>kw. isin kw text) kws"

section \<open>The methodology validator: the rubrics\<close>

subsection \<open>Clean Architecture\<close>

definition clean_core_principles :: "string list" where
  "clean_core_principles =
     [''independence_of_frameworks'', ''testability'', ''independence_of_ui'',
      ''independence_of_database'', ''independence_of_external_agency'']"

definition clean_layer_structure :: "string list" where
  "clean_layer_structure = [''entities'', ''use_cases'', ''interface_adapters'', ''frameworks_drivers'']"

definition clean_required_concepts :: "string list" where
  "clean_required_concepts =
     [''separation_of_concerns'', ''dependency_inversion'', ''business_logic_isolation'',
      ''testable_architecture'', ''framework_independence'']"

definition clean_anti_patterns :: "string list" where
  "clean_anti_patterns =
     [''business_logic_in_ui'', ''database_logic_in_business'',
      ''tight_framework_coupling'', ''circular_dependencies'']"

definition validate_clean_architecture ::
  "response \<Rightarrow> MethodologyValidationResult \<Rightarrow> MethodologyValidationResult" where
  "validate_clean_architecture agent_response res =
     (let response_text = lower (extract_full_response_text agent_response);
          principles = filter (\<lambda>p. any_in (split_on CHR ''_'' p) response_text) clean_core_principles;
          principles_mentioned = length principles;
          res = add_strengths (map (\<lambda>p. ''Mentions '' @ unscore p) principles) res;
          res =
            (if principles_mentioned = 0 then
               add_issue V_ERROR CLEAN_ARCHITECTURE ''missing_core_principles''
                 ''No Clean Architecture core principles mentioned''
                 ''Include discussion of framework independence, testability, UI independence, etc.''
                 res
             else if principles_mentioned < 3 then
               add_issue V_WARNING CLEAN_ARCHITECTURE ''insufficient_principle_coverage''
                 (''Only '' @ string_of_nat principles_mentioned @ ''/5 core principles mentioned'')
                 ''Provide more comprehensive Clean Architecture guidance''
                 res
             else res);
          concepts = mentioned (map unscore clean_required_concepts) response_text;
          concepts_mentioned = length concepts;
          res = add_strengths (map (\<lambda>c. ''Addresses '' @ c) concepts) res;
          res =
            (if concepts_mentioned < 2 then
               add_issue V_WARNING CLEAN_ARCHITECTURE ''missing_key_concepts''
                 ''Insufficient Clean Architecture concepts discussed''
                 ''Include separation of concerns, dependency inversion, business logic isolation''
                 res
             else res);
          anti_pattern_warnings =
            length (filter (\<lambda>a. isin (unscore a) response_text \<or> isin ''avoid'' response_text)
                      clean_anti_patterns);
          res =
            (if anti_pattern_warnings = 0
             then add_improvements [''Include warnings about Clean Architecture anti-patterns''] res
             else res);
          res =
            (if any_in clean_layer_structure response_text
             then add_strengths [''Demonstrates layer structure understanding''] res
             else add_improvements [''Explain Clean Architecture layer structure''] res)
      in res)"

subsection \<open>SOLID\<close>

text \<open>Each principle: its name, its keywords, its anti-patterns.\<close>

definition solid_principles :: "(string \<times> string list \<times> string list) list" where
  "solid_principles =
     [(''single_responsibility'',
        [''single responsibility'', ''one reason to change'', ''cohesion''],
        [''god class'', ''swiss army knife'', ''multiple responsibilities'']),
      (''open_closed'',
        [''open closed'', ''extension'', ''modification'', ''polymorphism''],
        [''modification of existing code'', ''breaking changes'']),
      (''liskov_substitution'',
        [''substitution'', ''inheritance'', ''polymorphism'', ''contract''],
        [''violated contracts'', ''strengthened preconditions'']),
      (''interface_segregation'',
        [''interface segregation'', ''client specific'', ''minimal interface''],
        [''fat interface'', ''interface pollution'', ''unused methods'']),
      (''dependency_inversion'',
        [''dependency inversion'', ''abstraction'', ''dependency injection''],
        [''concrete dependencies'', ''tight coupling'', ''direct instantiation''])]"

definition solid_implementation_patterns :: "string list" where
  "solid_implementation_patterns =
     [''dependency_injection'', ''factory_pattern'', ''strategy_pattern'',
      ''observer_pattern'', ''adapter_pattern'']"

definition validate_solid_principles ::
  "response \<Rightarrow> MethodologyValidationResult \<Rightarrow> MethodologyValidationResult" where
  "validate_solid_principles agent_response res =
     (let response_text = lower (extract_full_response_text agent_response);
          principles_covered =
            length (filter (\<lambda>p. any_in (fst (snd p)) response_text) solid_principles);
          res = add_strengths
                  (concat (map (\<lambda>p.
                     (if any_in (fst (snd p)) response_text
                      then [''Addresses '' @ unscore (fst p) @ '' principle''] else [])
                     @ map (\<lambda>a. ''Warns against '' @ a)
                         (filter (\<lambda>a. isin a response_text \<or> isin ''avoid'' response_text)
                            (snd (snd p))))
                     solid_principles)) res;
          res =
            (if principles_covered = 0 then
               add_issue V_CRITICAL SOLID_PRINCIPLES ''no_solid_principles''
                 ''No SOLID principles mentioned in response''
                 ''Agent claiming SOLID methodology must discuss relevant principles''
                 res
             else if principles_covered < 3 then
               add_issue V_WARNING SOLID_PRINCIPLES ''incomplete_solid_coverage''
                 (''Only '' @ string_of_nat principles_covered @ ''/5 SOLID principles covered'')
                 ''Provide more comprehensive SOLID principles guidance''
                 res
             else res);
          patterns = mentioned (map unscore solid_implementation_patterns) response_text;
          patterns_mentioned = length patterns;
          res = add_strengths (map (\<lambda>p. ''Mentions '' @ p) patterns) res;
          res =
            (if patterns_mentioned = 0
             then add_improvements
                    [''Include SOLID implementation patterns (DI, Factory, Strategy, etc.)''] res
             else res)
      in res)"

subsection \<open>OWASP\<close>

text \<open>Each vulnerability class: its id, its mitigations, its keywords.\<close>

definition owasp_top_10 :: "(string \<times> string list \<times> string list) list" where
  "owasp_top_10 =
     [(''A01_broken_access_control'',
        [''principle_of_least_privilege'', ''deny_by_default'', ''rate_limiting''],
        [''access control'', ''authorization'', ''privilege'', ''permissions'']),
      (''A02_cryptographic_failures'',
        [''encryption_at_rest'', ''encryption_in_transit'', ''secure_key_management''],
        [''encryption'', ''cryptography'', ''sensitive data'', ''key management'']),
      (''A03_injection'',
        [''parameterized_queries'', ''input_validation'', ''output_encoding''],
        [''injection'', ''sql injection'', ''input validation'', ''parameterized'']),
      (''A04_insecure_design'',
        [''secure_design_patterns'', ''threat_modeling'', ''secure_development''],
        [''secure design'', ''threat modeling'', ''security architecture'']),
      (''A05_security_misconfiguration'',
        [''security_hardening'', ''configuration_management'', ''minimal_platform''],
        [''configuration'', ''hardening'', ''security settings'', ''defaults''])]"

definition owasp_security_principles :: "string list" where
  "owasp_security_principles =
     [''defense_in_depth'', ''principle_of_least_privilege'', ''fail_securely'',
      ''secure_by_default'', ''separation_of_duties'', ''complete_mediation'']"

definition owasp_validation_categories :: "string list" where
  "owasp_validation_categories =
     [''authentication'', ''authorization'', ''input_validation'', ''output_encoding'',
      ''session_management'', ''cryptography'', ''error_handling'', ''logging'']"

definition validate_owasp_security ::
  "response \<Rightarrow> MethodologyValidationResult \<Rightarrow> MethodologyValidationResult" where
  "validate_owasp_security agent_response res =
     (let response_text = lower (extract_full_response_text agent_response);
          vulns = filter (\<lambda>v. any_in (snd (snd v)) response_text) owasp_top_10;
          top10_mentioned = length vulns;
          res = add_strengths
                  (concat (map (\<lambda>v.
                     (''Addresses '' @ unscore (fst v))
                     # map (\<lambda>m. ''Provides '' @ m @ '' guidance'')
                         (mentioned (map unscore (fst (snd v))) response_text))
                     vulns)) res;
          res = add_improvements
                  (concat (map (\<lambda>v.
                     if mentioned (map unscore (fst (snd v))) response_text = []
                     then [''Include specific mitigations for '' @ fst v] else [])
                     vulns)) res;
          res =
            (if top10_mentioned = 0 then
               add_issue V_ERROR OWASP_SECURITY ''no_owasp_coverage''
                 ''No OWASP Top 10 vulnerabilities addressed''
                 ''Security analysis should reference relevant OWASP Top 10 items''
                 res
             else res);
          principles = mentioned (map unscore owasp_security_principles) response_text;
          res = add_strengths (map (\<lambda>p. ''Applies '' @ p @ '' principle'') principles) res;
          res =
            (if length principles = 0
             then add_improvements
                    [''Include fundamental security principles (defense in depth, least privilege, etc.)'']
                    res
             else res);
          categories_covered = length (mentioned owasp_validation_categories response_text);
          res =
            (if categories_covered < 3
             then add_improvements
                    [''Cover more security validation categories (auth, input validation, crypto, etc.)'']
                    res
             else res)
      in res)"

subsection \<open>NIST Cybersecurity Framework\<close>

text \<open>Each framework function: its name, its categories, its keywords.\<close>

definition nist_framework_functions :: "(string \<times> string list \<times> string list) list" where
  "nist_framework_functions =
     [(''identify'',
        [''asset_management'', ''business_environment'', ''governance'', ''risk_assessment''],
        [''identify'', ''inventory'', ''risk assessment'', ''governance'']),
      (''protect'',
        [''identity_management'', ''awareness_training'', ''data_security'', ''protective_technology''],
        [''protect'', ''access control'', ''data protection'', ''training'']),
      (''detect'',
        [''anomalies_events'', ''security_monitoring'', ''detection_processes''],
        [''detect'', ''monitoring'', ''logging'', ''anomaly detection'']),
      (''respond'',
        [''response_planning'', ''communications'', ''analysis'', ''mitigation''],
        [''respond'', ''incident response'', ''mitigation'', ''communications'']),
      (''recover'',
        [''recovery_planning'', ''improvements'', ''communications''],
        [''recover'', ''backup'', ''recovery'', ''business continuity''])]"

definition validate_nist_cybersecurity ::
  "response \<Rightarrow> MethodologyValidationResult \<Rightarrow> MethodologyValidationResult" where
  "validate_nist_cybersecurity agent_response res =
     (let response_text = lower (extract_full_response_text agent_response);
          functions = filter (\<lambda>f. any_in (snd (snd f)) response_text) nist_framework_functions;
          functions_mentioned = length functions;
          res = add_strengths
                  (concat (map (\<lambda>f.
                     (''Addresses NIST '' @ upper (fst f) @ '' function'')
                     # (let categories_mentioned =
                              length (mentioned (map unscore (fst (snd f))) response_text)
                        in if categories_mentioned > 0
                           then [''Covers '' @ string_of_nat categories_mentioned @ '' '' @ fst f
                                   @ '' categories'']
                           else []))
                     functions)) res;
          res =
            (if functions_mentioned = 0 then
               add_issue V_WARNING NIST_CYBERSECURITY ''no_nist_functions''
                 ''No NIST Cybersecurity Framework functions addressed''
                 ''Reference relevant NIST framework functions (Identify, Protect, Detect, Respond, Recover)''
                 res
             else if functions_mentioned < 3 then
               add_improvements
                 [''Consider broader NIST framework coverage across multiple functions''] res
             else res)
      in res)"

subsection \<open>UX Design Thinking\<close>

definition ux_design_thinking_process :: "string list" where
  "ux_design_thinking_process = [''empathize'', ''define'', ''ideate'', ''prototype'', ''test'']"

definition ux_don_norman_principles :: "string list" where
  "ux_don_norman_principles =
     [''visibility'', ''feedback'', ''constraints'', ''mapping'', ''consistency'', ''affordance'']"

definition ux_usability_heuristics :: "string list" where
  "ux_usability_heuristics =
     [''visibility_of_system_status'', ''match_system_real_world'', ''user_control_freedom'',
      ''consistency_standards'', ''error_prevention'', ''recognition_vs_recall'',
      ''flexibility_efficiency'', ''aesthetic_minimalist_design'', ''error_recovery'',
      ''help_documentation'']"

definition ux_user_centered_design :: "string list" where
  "ux_user_centered_design =
     [''user_research'', ''persona_development'', ''user_journey_mapping'',
      ''usability_testing'', ''accessibility'', ''inclusive_design'']"

definition validate_ux_design_thinking ::
  "response \<Rightarrow> MethodologyValidationResult \<Rightarrow> MethodologyValidationResult" where
  "validate_ux_design_thinking agent_response res =
     (let response_text = lower (extract_full_response_text agent_response);
          steps = mentioned ux_design_thinking_process response_text;
          res = add_strengths (map (\<lambda>s. ''References '' @ s @ '' phase of design thinking'') steps) res;
          res =
            (if length steps = 0
             then add_improvements
                    [''Include design thinking process steps (empathize, define, ideate, prototype, test)'']
                    res
             else res);
          norman = mentioned ux_don_norman_principles response_text;
          res = add_strengths (map (\<lambda>p. ''Applies '' @ p @ '' principle'') norman) res;
          res =
            (if length norman = 0
             then add_improvements [''Reference Don Norman'' @ [CHR 0x27] @ ''s design principles''] res
             else res);
          heuristics_mentioned =
            length (filter (\<lambda>h. any_in (split (unscore h)) response_text) ux_usability_heuristics);
          res =
            (if heuristics_mentioned > 3
             then add_strengths
                    [''Addresses '' @ string_of_nat heuristics_mentioned @ '' usability heuristics''] res
             else if heuristics_mentioned = 0
             then add_improvements [''Include usability heuristics and guidelines''] res
             else res);
          ucd = mentioned (map unscore ux_user_centered_design) response_text;
          res = add_strengths (map (\<lambda>e. ''Includes '' @ e) ucd) res;
          res =
            (if length ucd = 0 then
               add_issue V_WARNING UX_DESIGN_THINKING ''missing_user_centered_design''
                 ''No user-centered design elements mentioned''
                 ''Include user research, personas, journey mapping, or usability testing''
                 res
             else res)
      in res)"

subsection \<open>REST API design\<close>

definition rest_principles :: "string list" where
  "rest_principles =
     [''client_server'', ''stateless'', ''cacheable'', ''uniform_interface'',
      ''layered_system'', ''code_on_demand'']"

definition rest_http_methods :: "string list" where
  "rest_http_methods = [''GET'', ''POST'', ''PUT'', ''PATCH'', ''DELETE'']"

definition rest_status_codes :: "string list" where
  "rest_status_codes = [''200'', ''201'', ''400'', ''401'', ''404'', ''500'']"

definition rest_best_practices :: "string list" where
  "rest_best_practices =
     [''consistent_naming'', ''proper_status_codes'', ''versioning_strategy'',
      ''error_handling'', ''pagination'', ''filtering'', ''documentation'']"

definition validate_rest_api_design ::
  "response \<Rightarrow> MethodologyValidationResult \<Rightarrow> MethodologyValidationResult" where
  "validate_rest_api_design agent_response res =
     (let response_text = lower (extract_full_response_text agent_response);
          principles = mentioned (map unscore rest_principles) response_text;
          res = add_strengths (map (\<lambda>p. ''Addresses '' @ p @ '' principle'') principles) res;
          res =
            (if length principles = 0 then
               add_issue V_WARNING REST_API_DESIGN ''missing_rest_principles''
                 ''No REST architectural principles mentioned''
                 ''Include REST principles (stateless, cacheable, uniform interface, etc.)''
                 res
             else res);
          methods_mentioned = length (mentioned (map lower rest_http_methods) response_text);
          res =
            (if methods_mentioned > 0
             then add_strengths [''Discusses '' @ string_of_nat methods_mentioned @ '' HTTP methods''] res
             else add_improvements [''Include HTTP methods usage (GET, POST, PUT, DELETE)''] res);
          res =
            (if any_in rest_status_codes response_text
             then add_strengths [''References HTTP status codes''] res
             else add_improvements [''Include HTTP status code guidance''] res);
          practices = mentioned (map unscore rest_best_practices) response_text;
          res = add_strengths (map (\<lambda>p. ''Includes '' @ p @ '' best practice'') practices) res;
          res =
            (if length practices < 2
             then add_improvements [''Include more REST API best practices''] res
             else res)
      in res)"

subsection \<open>Microservices patterns\<close>

definition micro_core_patterns :: "string list" where
  "micro_core_patterns =
     [''database_per_service'', ''api_gateway'', ''circuit_breaker'',
      ''service_discovery'', ''event_sourcing'', ''cqrs'', ''saga_pattern'']"

definition micro_decomposition_patterns :: "string list" where
  "micro_decomposition_patterns =
     [''decompose_by_business_capability'', ''decompose_by_subdomain'',
      ''self_contained_service'', ''service_per_team'']"

definition micro_data_management :: "string list" where
  "micro_data_management =
     [''database_per_service'', ''shared_databases_anti_pattern'',
      ''eventual_consistency'', ''distributed_transactions'']"

definition micro_observability :: "string list" where
  "micro_observability =
     [''distributed_tracing'', ''centralized_logging'', ''metrics_aggregation'',
      ''health_check_api'', ''service_monitoring'']"

definition validate_microservices_patterns ::
  "response \<Rightarrow> MethodologyValidationResult \<Rightarrow> MethodologyValidationResult" where
  "validate_microservices_patterns agent_response res =
     (let response_text = lower (extract_full_response_text agent_response);
          patterns = mentioned (map unscore micro_core_patterns) response_text;
          res = add_strengths (map (\<lambda>p. ''Mentions '' @ p @ '' pattern'') patterns) res;
          res =
            (if length patterns = 0 then
               add_issue V_WARNING MICROSERVICES_PATTERNS ''missing_core_patterns''
                 ''No microservices patterns mentioned''
                 ''Include core patterns like API gateway, circuit breaker, service discovery''
                 res
             else res);
          decomposition_mentioned =
            length (mentioned (map unscore micro_decomposition_patterns) response_text);
          res =
            (if decomposition_mentioned > 0
             then add_strengths [''Addresses service decomposition strategy''] res
             else add_improvements [''Include service decomposition strategy''] res);
          data_patterns = length (mentioned (map unscore micro_data_management) response_text);
          res =
            (if data_patterns > 0
             then add_strengths [''Addresses microservices data management''] res
             else add_improvements
                    [''Include data management patterns (database per service, etc.)''] res);
          observability_mentioned =
            length (mentioned (map unscore micro_observability) response_text);
          res =
            (if observability_mentioned > 0
             then add_strengths
                    [''Includes '' @ string_of_nat observability_mentioned @ '' observability patterns'']
                    res
             else add_improvements
                    [''Include observability patterns (tracing, logging, monitoring)''] res)
      in res)"

subsection \<open>Methodologies with no rubric of their own\<close>

definition validate_generic_methodology ::
  "response \<Rightarrow> MethodologyValidationResult \<Rightarrow> MethodologyType \<Rightarrow> MethodologyValidationResult" where
  "validate_generic_methodology agent_response res methodology_type =
     (let response_text = lower (extract_full_response_text agent_response);
          res =
            (if length response_text < 100 then
               add_issue V_WARNING methodology_type ''insufficient_detail''
                 ''Response lacks sufficient detail for methodology validation''
                 ''Provide more comprehensive methodology-based guidance''
                 res
             else res);
          methodology_name = unscore (methodology_value methodology_type);
          res =
            (if \<not> isin methodology_name response_text then
               add_issue V_WARNING methodology_type ''methodology_not_referenced''
                 (''Claimed methodology '' @ [CHR 0x27] @ methodology_name @ [CHR 0x27]
                    @ '' not explicitly referenced'')
                 (''Reference '' @ methodology_name @ '' principles and practices'')
                 res
             else res);
          res = add_improvements [''Provide more specific '' @ methodology_name @ '' guidance''] res
      in res)"

section \<open>The methodology validator: scoring and tracking\<close>

text \<open>\<open>_map_methodology_string_to_type\<close>\<close>

definition map_methodology_string_to_type :: "string \<Rightarrow> MethodologyType option" where
  "map_methodology_string_to_type methodology_string =
     (let methodology_lower = lower methodology_string
      in if isin ''clean architecture'' methodology_lower then Some CLEAN_ARCHITECTURE
         else if isin ''solid'' methodology_lower then Some SOLID_PRINCIPLES
         else if isin ''owasp'' methodology_lower then Some OWASP_SECURITY
         else if isin ''nist'' methodology_lower then Some NIST_CYBERSECURITY
         else if any_in [''ux'', ''design thinking'', ''user experience''] methodology_lower
           then Some UX_DESIGN_THINKING
         else if isin ''rest'' methodology_lower \<or> isin ''api'' methodology_lower
           then Some REST_API_DESIGN
         else if isin ''microservices'' methodology_lower then Some MICROSERVICES_PATTERNS
         else if isin ''tdd'' methodology_lower \<or> isin ''test driven'' methodology_lower
           then Some TEST_DRIVEN_DEVELOPMENT
         else if isin ''ddd'' methodology_lower \<or> isin ''domain driven'' methodology_lower
           then Some DOMAIN_DRIVEN_DESIGN
         else None)"

text \<open>\<open>_calculate_validation_score\<close>\<close>

fun issue_penalty :: "ValidationSeverity \<Rightarrow> rat" where
  "issue_penalty V_CRITICAL = 3 / 10"
| "issue_penalty V_ERROR = 2 / 10"
| "issue_penalty V_WARNING = 1 / 10"
| "issue_penalty V_INFO = 5 / 100"

definition calculate_validation_score :: "MethodologyValidationResult \<Rightarrow> rat" where
  "calculate_validation_score res =
     (let base_score = foldl (\<lambda>s issue. s - issue_penalty (issue_severity issue)) 1 (issues res);
          strength_bonus = min (2 / 10) (of_nat (length (strengths res)) * (5 / 100));
          base_score = base_score + strength_bonus
      in max 0 (min 1 base_score))"

text \<open>\<open>_determine_compliance_level\<close>\<close>

definition determine_compliance_level :: "rat \<Rightarrow> string" where
  "determine_compliance_level s =
     (if s \<ge> 9 / 10 then ''excellent''
      else if s \<ge> 75 / 100 then ''good''
      else if s \<ge> 6 / 10 then ''fair''
      else ''poor'')"

text \<open>\<open>_calculate_framework_adherence\<close>\<close>

definition calculate_framework_adherence :: "MethodologyValidationResult \<Rightarrow> rat" where
  "calculate_framework_adherence res =
     (let critical_issues = length (filter (\<lambda>i. issue_severity i = V_CRITICAL) (issues res));
          error_issues = length (filter (\<lambda>i. issue_severity i = V_ERROR) (issues res))
      in if critical_issues > 0 then max (3 / 10) (validation_score res - 4 / 10)
         else if error_issues > 1 then max (5 / 10) (validation_score res - 2 / 10)
         else validation_score res)"

text \<open>
  The per-agent tracking entry and the validator instance. The set of claimed
  methodologies is kept as a duplicate-free list in the order of first occurrence.
\<close>

record methodology_tracking =
  total_validations :: nat
  average_score :: rat
  tracked_consistency :: bool
  common_issues :: "(string \<times> nat) list"
  strengths_count :: "(string \<times> nat) list"
  claimed_methodologies :: "string list"

record DevelopmentMethodologyValidator =
  validation_history :: "MethodologyValidationResult list"
  agent_methodology_tracking :: "(string \<times> methodology_tracking) list"

text \<open>\<open>DevelopmentMethodologyValidator()\<close>: a new instance.\<close>

definition new_validator :: DevelopmentMethodologyValidator where
  "new_validator = \<lparr> validation_history = [], agent_methodology_tracking = [] \<rparr>"

text \<open>\<open>counts[key] = counts.get(key, 0) + 1\<close>\<close>

definition bump :: "(string \<times> nat) list \<Rightarrow> string \<Rightarrow> (string \<times> nat) list" where
  "bump counts key = dict_set counts key (get_or (dict_get counts key) 0 + 1)"

text \<open>\<open>_update_agent_tracking\<close>\<close>

definition update_agent_tracking ::
  "DevelopmentMethodologyValidator \<Rightarrow> string \<Rightarrow> MethodologyValidationResult
     \<Rightarrow> DevelopmentMethodologyValidator" where
  "update_agent_tracking v name res =
     (let tracking = get_or (dict_get (agent_methodology_tracking v) name)
                       \<lparr> total_validations = 0, average_score = 0, tracked_consistency = True,
                         common_issues = [], strengths_count = [], claimed_methodologies = [] \<rparr>;
          tracking = tracking \<lparr> total_validations := total_validations tracking + 1 \<rparr>;
          prev_avg = average_score tracking;
          total = total_validations tracking;
          tracking = tracking \<lparr> average_score :=
                       (prev_avg * (of_nat total - 1) + validation_score res) / of_nat total \<rparr>;
          tracking = tracking \<lparr> claimed_methodologies :=
                       (if methodology_claimed res \<in> set (claimed_methodologies tracking)
                        then claimed_methodologies tracking
                        else claimed_methodologies tracking @ [methodology_claimed res]) \<rparr>;
          tracking = (if length (claimed_methodologies tracking) > 1
                      then tracking \<lparr> tracked_consistency := False \<rparr> else tracking);
          tracking = tracking \<lparr> common_issues :=
                       foldl (\<lambda>counts issue.
                                bump counts (issue_type issue @ ''_'' @ severity_value (issue_severity issue)))
                         (common_issues tracking) (issues res) \<rparr>;
          tracking = tracking \<lparr> strengths_count :=
                       foldl bump (strengths_count tracking) (strengths res) \<rparr>
      in v \<lparr> agent_methodology_tracking := dict_set (agent_methodology_tracking v) name tracking \<rparr>)"

text \<open>The validator chosen for a methodology type.\<close>

definition run_validator ::
  "MethodologyType \<Rightarrow> response \<Rightarrow> MethodologyValidationResult \<Rightarrow> MethodologyValidationResult" where
  "run_validator methodology_type agent_response res =
     (if methodology_type = CLEAN_ARCHITECTURE then validate_clean_architecture agent_response res
      else if methodology_type = SOLID_PRINCIPLES then validate_solid_principles agent_response res
      else if methodology_type = OWASP_SECURITY then validate_owasp_security agent_response res
      else if methodology_type = NIST_CYBERSECURITY then validate_nist_cybersecurity agent_response res
      else if methodology_type = UX_DESIGN_THINKING then validate_ux_design_thinking agent_response res
      else if methodology_type = REST_API_DESIGN then validate_rest_api_design agent_response res
      else if methodology_type = MICROSERVICES_PATTERNS
        then validate_microservices_patterns agent_response res
      else validate_generic_methodology agent_response res methodology_type)"

text \<open>\<open>validate_agent_methodology\<close>: the validation result and the validator after the call.\<close>

definition validate_agent_methodology ::
  "DevelopmentMethodologyValidator \<Rightarrow> response \<Rightarrow> string \<Rightarrow> string
     \<Rightarrow> MethodologyValidationResult \<times> DevelopmentMethodologyValidator" where
  "validate_agent_methodology v agent_response claimed_methodology name =
     (let res = \<lparr> agent_name = name, methodology_claimed = claimed_methodology,
                  validation_score = 0, overall_compliance = ''unknown'',
                  issues = [], strengths = [], improvement_areas = [],
                  methodology_consistency = True, expert_framework_adherence = 0 \<rparr>
      in case map_methodology_string_to_type claimed_methodology of
           None \<Rightarrow>
             (let res = add_issue V_WARNING CLEAN_ARCHITECTURE ''unknown_methodology''
                          (''Cannot validate unknown methodology: '' @ claimed_methodology)
                          ''Specify a recognized development methodology'' res;
                  res = res \<lparr> validation_score := 5 / 10 \<rparr>;
                  res = res \<lparr> overall_compliance := ''fair'' \<rparr>
              in (res, v))
         | Some methodology_type \<Rightarrow>
             (let res = run_validator methodology_type agent_response res;
                  res = res \<lparr> validation_score := calculate_validation_score res \<rparr>;
                  res = res \<lparr> overall_compliance := determine_compliance_level (validation_score res) \<rparr>;
                  res = res \<lparr> expert_framework_adherence := calculate_framework_adherence res \<rparr>;
                  v = update_agent_tracking v name res;
                  v = v \<lparr> validation_history := validation_history v @ [res] \<rparr>
              in (res, v)))"

section \<open>The methodology validator: the agent report\<close>

record agent_report =
  report_agent_name :: string
  report_total_validations :: nat
  average_validation_score :: rat
  report_consistency :: bool
  report_claimed_methodologies :: "string list"
  recent_scores :: "rat list"
  recent_compliance :: "string list"
  improvement_trend :: string
  report_common_issues :: "(string \<times> nat) list"
  top_strengths :: "(string \<times> nat) list"
  report_recommendations :: "string list"

text \<open>What the report call returns: the dictionary with the single key \<open>error\<close>, or the report.\<close>

datatype methodology_report = ErrorReport string | AgentReport agent_report

definition average :: "rat list \<Rightarrow> rat" where
  "average xs = sum_list xs / of_nat (length xs)"

text \<open>\<open>_calculate_improvement_trend\<close>\<close>

definition calculate_improvement_trend :: "MethodologyValidationResult list \<Rightarrow> string" where
  "calculate_improvement_trend recent_validations =
     (if length recent_validations < 3 then ''insufficient_data''
      else
        (let scores = map validation_score recent_validations;
             first_half = take (length scores div 2) scores;
             second_half = drop (length scores div 2) scores;
             avg_first = average first_half;
             avg_second = average second_half
         in if avg_second > avg_first + 1 / 10 then ''improving''
            else if avg_second < avg_first - 1 / 10 then ''declining''
            else ''stable''))"

text \<open>
  \<open>issue_key.split('_', 1)\<close>: the parts before and after the first underscore (every
  key of the issue table holds one, between the issue type and the severity).
\<close>

definition split_first :: "string \<Rightarrow> string \<times> string" where
  "split_first key =
     (takeWhile (\<lambda>c. c \<noteq> CHR ''_'') key, drop 1 (dropWhile (\<lambda>c. c \<noteq> CHR ''_'') key))"

text \<open>\<open>_generate_agent_recommendations\<close>\<close>

definition generate_agent_recommendations ::
  "methodology_tracking \<Rightarrow> MethodologyValidationResult list \<Rightarrow> string list" where
  "generate_agent_recommendations tracking recent_validations =
     (if average_score tracking < 7 / 10
      then [''Focus on improving methodology adherence - current average score is below good threshold'']
      else [])
     @ (if \<not> tracked_consistency tracking
        then [''Maintain consistency in claimed methodology across consultations'']
        else [])
     @ map (\<lambda>kv. ''Address recurring '' @ snd (split_first (fst kv)) @ '' issue: ''
                    @ unscore (fst (split_first (fst kv))))
         (take 3 (common_issues tracking))
     @ (if recent_validations \<noteq> []
           \<and> length (concat (map (\<lambda>v. map issue_type (issues v)) (last_n 3 recent_validations))) > 5
        then [''Recent validations show increased issues - review methodology application'']
        else [])"

text \<open>\<open>dict(sorted(counts.items(), key=lambda x: x[1], reverse=True)[:5])\<close>: a stable sort.\<close>

definition top_five :: "(string \<times> nat) list \<Rightarrow> (string \<times> nat) list" where
  "top_five counts = take 5 (sort_key (\<lambda>kv. - int (snd kv)) counts)"

text \<open>
  \<open>get_agent_methodology_report\<close>: the report and the validator after the call. The
  method assigns to nothing of the instance; the validator is returned as it was.
\<close>

definition get_agent_methodology_report ::
  "DevelopmentMethodologyValidator \<Rightarrow> string \<Rightarrow> methodology_report \<times> DevelopmentMethodologyValidator" where
  "get_agent_methodology_report v name =
     (case dict_get (agent_methodology_tracking v) name of
        None \<Rightarrow> (ErrorReport (''No validation history found for agent: '' @ name), v)
      | Some tracking \<Rightarrow>
          (let recent_validations =
                 filter (\<lambda>res. agent_name res = name) (last_n 10 (validation_history v))
           in (AgentReport
                 \<lparr> report_agent_name = name,
                   report_total_validations = total_validations tracking,
                   average_validation_score = average_score tracking,
                   report_consistency = tracked_consistency tracking,
                   report_claimed_methodologies = claimed_methodologies tracking,
                   recent_scores = map validation_score (last_n 5 recent_validations),
                   recent_compliance = map overall_compliance (last_n 5 recent_validations),
                   improvement_trend = calculate_improvement_trend recent_validations,
                   report_common_issues = top_five (common_issues tracking),
                   top_strengths = top_five (strengths_count tracking),
                   report_recommendations =
                     generate_agent_recommendations tracking recent_validations \<rparr>,
               v)))"

section \<open>The methodology validator: reachable states\<close>

text \<open>
  The tracking table has an entry for exactly the agents that have a result in the
  validation history.
\<close>

definition tracking_matches_history :: "DevelopmentMethodologyValidator \<Rightarrow> bool" where
  "tracking_matches_history v =
     (set (keys (agent_methodology_tracking v)) = set (map agent_name (validation_history v)))"

text \<open>
  The validators a program can hold: a new one, and what the two public methods that take
  an agent name leave behind.
\<close>

inductive reachable_validator :: "DevelopmentMethodologyValidator \<Rightarrow> bool" where
  new: "reachable_validator new_validator"
| validate: "reachable_validator v
     \<Longrightarrow> reachable_validator (snd (validate_agent_methodology v agent_response claimed name))"
| report: "reachable_validator v \<Longrightarrow> reachable_validator (snd (get_agent_methodology_report v name))"

section \<open>The methodology validator: what the rubrics search for\<close>

text \<open>
  Every string one of the validators looks for in the lower-cased text of a response,
  by methodology: the keywords, principle names, layer names and indicator words of its
  rubric. The generic validator looks for the name of the methodology only.
\<close>

definition rubric_keywords :: "MethodologyType \<Rightarrow> string list" where
  "rubric_keywords mt =
     (if mt = CLEAN_ARCHITECTURE then
        concat (map (split_on CHR ''_'') clean_core_principles)
        @ map unscore clean_required_concepts
        @ map unscore clean_anti_patterns @ [''avoid'']
        @ clean_layer_structure
      else if mt = SOLID_PRINCIPLES then
        concat (map (\<lambda>p. fst (snd p)) solid_principles)
        @ concat (map (\<lambda>p. snd (snd p)) solid_principles) @ [''avoid'']
        @ map unscore solid_implementation_patterns
      else if mt = OWASP_SECURITY then
        concat (map (\<lambda>v. snd (snd v)) owasp_top_10)
        @ concat (map (\<lambda>v. map unscore (fst (snd v))) owasp_top_10)
        @ map unscore owasp_security_principles
        @ owasp_validation_categories
      else if mt = NIST_CYBERSECURITY then
        concat (map (\<lambda>f. snd (snd f)) nist_framework_functions)
        @ concat (map (\<lambda>f. map unscore (fst (snd f))) nist_framework_functions)
      else if mt = UX_DESIGN_THINKING then
        ux_design_thinking_process
        @ ux_don_norman_principles
        @ concat (map (\<lambda>h. split (unscore h)) ux_usability_heuristics)
        @ map unscore ux_user_centered_design
      else if mt = REST_API_DESIGN then
        map unscore rest_principles
        @ map lower rest_http_methods
        @ rest_status_codes
        @ map unscore rest_best_practices
      else if mt = MICROSERVICES_PATTERNS then
        map unscore micro_core_patterns
        @ map unscore micro_decomposition_patterns
        @ map unscore micro_data_management
        @ map unscore micro_observability
      else [unscore (methodology_value mt)])"

text \<open>The empty result a validation starts from.\<close>

definition fresh_result :: "string \<Rightarrow> string \<Rightarrow> MethodologyValidationResult" where
  "fresh_result name claimed =
     \<lparr> agent_name = name, methodology_claimed = claimed,
       validation_score = 0, overall_compliance = ''unknown'',
       issues = [], strengths = [], improvement_areas = [],
       methodology_consistency = True, expert_framework_adherence = 0 \<rparr>"

text \<open>
  The severities of the issues each validator raises on a text that contains none of the
  strings it searches for.
\<close>

definition zero_keyword_severities :: "MethodologyType \<Rightarrow> string \<Rightarrow> ValidationSeverity list" where
  "zero_keyword_severities mt text =
     (if mt = CLEAN_ARCHITECTURE then [V_ERROR, V_WARNING]
      else if mt = SOLID_PRINCIPLES then [V_CRITICAL]
      else if mt = OWASP_SECURITY then [V_ERROR]
      else if mt = NIST_CYBERSECURITY \<or> mt = UX_DESIGN_THINKING \<or> mt = REST_API_DESIGN
              \<or> mt = MICROSERVICES_PATTERNS then [V_WARNING]
      else (if length text < 100 then [V_WARNING] else []) @ [V_WARNING])"

section \<open>Properties\<close>

lemma repr_test:
  "repr (PDict [(''a'', PStr ''x y''), (''b'', PList [PInt (-12), PBool True, PNone])])
     = ''{'' @ [CHR 0x27] @ ''a'' @ [CHR 0x27] @ '': '' @ [CHR 0x27] @ ''x y'' @ [CHR 0x27]
        @ '', '' @ [CHR 0x27] @ ''b'' @ [CHR 0x27] @ '': [-12, True, None]}''"
  by code_simp


subsection \<open>Merging dictionaries\<close>

lemma map_of_dict_set: "map_of (dict_set d k v) = (map_of d)(k \<mapsto> v)"
  by (induction d) (auto simp: fun_eq_iff)

lemma map_of_foldl_dict_set:
  "map_of (foldl (\<lambda>acc kv. dict_set acc (fst kv) (snd kv)) d e) = map_of d ++ map_of (rev e)"
proof (induction e arbitrary: d)
  case Nil
  show ?case by simp
next
  case (Cons kv e)
  have "map_of (foldl (\<lambda>acc kv. dict_set acc (fst kv) (snd kv)) d (kv # e))
          = (map_of d)(fst kv \<mapsto> snd kv) ++ map_of (rev e)"
    using Cons.IH [of "dict_set d (fst kv) (snd kv)"] by (simp add: map_of_dict_set fun_upd_def)
  also have "\<dots> = map_of d ++ ([fst kv \<mapsto> snd kv] ++ map_of (rev e))"
    by (simp add: fun_eq_iff map_add_def split: option.split)
  also have "[fst kv \<mapsto> snd kv] ++ map_of (rev e) = map_of (rev (kv # e))"
    by (cases kv) simp
  finally show ?case .
qed

lemma map_of_dict_update: "map_of (dict_update d e) = map_of d ++ map_of (rev e)"
  by (simp add: dict_update_def map_of_foldl_dict_set)

subsection \<open>Conflict severity\<close>

lemma severity_indicators_additive: "severity_indicators_of text = additive_total text"
  by (simp add: severity_indicators_of_def additive_total_def high_impact_hit_def
      blocking_hit_def performance_hit_def Let_def)

lemma classify_conflict_total:
  "snd (classify_conflict c1 c2 r1 r2)
     = severity_of_indicators (additive_total (lower (str (PDict (dict_update c1 c2)))))"
  by (simp add: classify_conflict_def conflict_text_of_def Let_def severity_indicators_additive)

lemma rank_superset:
  assumes "high_impact_hit a \<longrightarrow> high_impact_hit b"
    and "blocking_hit a \<longrightarrow> blocking_hit b"
    and "performance_hit a \<longrightarrow> performance_hit b"
  shows "severity_rank (severity_of_indicators (additive_total a))
           \<le> severity_rank (severity_of_indicators (additive_total b))"
  using assms by (auto simp: additive_total_def severity_of_indicators_def)

lemma rank_count:
  assumes "matched_groups a < matched_groups b"
  shows "severity_rank (severity_of_indicators (additive_total a))
           \<le> severity_rank (severity_of_indicators (additive_total b))"
  using assms
  by (auto simp: additive_total_def severity_of_indicators_def matched_groups_def split: if_splits)

lemma detect_none_iff_low:
  assumes "d_potential_conflicts r1 \<noteq> [] \<or> d_potential_conflicts r2 \<noteq> []"
  shows "(detect_response_conflict n r1 r2 ctx = None)
           = (snd (classify_conflict (d_potential_conflicts r1) (d_potential_conflicts r2) r1 r2) = LOW)"
  using assms
  by (simp add: detect_response_conflict_def Let_def case_prod_beta)

lemma detect_some_fields:
  assumes "detect_response_conflict n r1 r2 ctx = Some c"
  shows "severity c = snd (classify_conflict (d_potential_conflicts r1) (d_potential_conflicts r2) r1 r2)"
    and "conflict_type c = fst (classify_conflict (d_potential_conflicts r1) (d_potential_conflicts r2) r1 r2)"
    and "agents_involved c = [get_or (d_agent_name r1) ''unknown'', get_or (d_agent_name r2) ''unknown'']"
    and "conflict_id c = ''conflict_'' @ get_or (d_agent_name r1) ''unknown'' @ ''_''
           @ get_or (d_agent_name r2) ''unknown'' @ ''_'' @ string_of_nat n"
proof -
  let ?A = "(d_potential_conflicts r1 \<noteq> [] \<or> d_potential_conflicts r2 \<noteq> [])
            \<and> snd (classify_conflict (d_potential_conflicts r1) (d_potential_conflicts r2) r1 r2) \<noteq> LOW"
  have A: ?A
  proof (rule ccontr)
    assume "\<not> ?A"
    then have "detect_response_conflict n r1 r2 ctx = None"
      by (simp add: detect_response_conflict_def Let_def case_prod_beta) blast
    with assms show False by simp
  qed
  have c: "c = the (detect_response_conflict n r1 r2 ctx)"
    using assms by simp
  show "severity c = snd (classify_conflict (d_potential_conflicts r1) (d_potential_conflicts r2) r1 r2)"
    unfolding c using A by (simp add: detect_response_conflict_def Let_def case_prod_beta)
  show "conflict_type c = fst (classify_conflict (d_potential_conflicts r1) (d_potential_conflicts r2) r1 r2)"
    unfolding c using A by (simp add: detect_response_conflict_def Let_def case_prod_beta)
  show "agents_involved c = [get_or (d_agent_name r1) ''unknown'', get_or (d_agent_name r2) ''unknown'']"
    unfolding c using A by (simp add: detect_response_conflict_def Let_def case_prod_beta)
  show "conflict_id c = ''conflict_'' @ get_or (d_agent_name r1) ''unknown'' @ ''_''
           @ get_or (d_agent_name r2) ''unknown'' @ ''_'' @ string_of_nat n"
    unfolding c using A by (simp add: detect_response_conflict_def Let_def case_prod_beta)
qed

text \<open>
  Claim C7, as stated, ends: severity is monotonically non-decreasing in the number of
  matched indicator groups. That part fails: severity is not determined by the number. A
  conflict map that mentions security only and one that mentions performance only both
  match one group, yet the first is classified high (+2) and the second moderate (+1).
\<close>

theorem severity_differs_at_equal_count:
  "matched_groups (merged_conflict_text security_only_reply empty_response) = 1
   \<and> matched_groups (merged_conflict_text performance_only_reply empty_response) = 1
   \<and> snd (classify_conflict (d_potential_conflicts security_only_reply)
            (d_potential_conflicts empty_response) security_only_reply empty_response) = HIGH
   \<and> snd (classify_conflict (d_potential_conflicts performance_only_reply)
            (d_potential_conflicts empty_response) performance_only_reply empty_response) = MODERATE"
  by code_simp

text \<open>
  Claim C7, amended. For two responses of which at least one declares a non-empty conflict
  map, the conflict text is the lower-cased print of the merged map (the entries of the
  first map, overridden and extended by those of the second); the severity indicator total
  is the sum of +2 (security, architecture or database occurs in the text), +2 (cannot,
  incompatible, conflicts or contradicts occurs) and +1 (performance, scalability or
  bottleneck occurs); the severity is critical from 4, high from 2, moderate from 1 and low
  otherwise; a conflict record is produced exactly when the severity is not low, and it
  carries that severity. Consequently another pair of responses whose text matches every
  group this text matches, or strictly more groups than it, never has the lower severity.
\<close>

theorem conflict_severity_additive:
  assumes "d_potential_conflicts r1 \<noteq> [] \<or> d_potential_conflicts r2 \<noteq> []"
  shows
    "(let merged = dict_update (d_potential_conflicts r1) (d_potential_conflicts r2);
          text = lower (str (PDict merged));
          total = (if any_in [''security'', ''architecture'', ''database''] text then 2 else 0)
                + (if any_in [''cannot'', ''incompatible'', ''conflicts'', ''contradicts''] text then 2 else 0)
                + (if any_in [''performance'', ''scalability'', ''bottleneck''] text then 1 else (0::nat));
          sev = snd (classify_conflict (d_potential_conflicts r1) (d_potential_conflicts r2) r1 r2)
      in map_of merged = map_of (d_potential_conflicts r1) ++ map_of (rev (d_potential_conflicts r2))
       \<and> sev = (if total \<ge> 4 then CRITICAL
                 else if total \<ge> 2 then HIGH
                 else if total \<ge> 1 then MODERATE
                 else LOW)
       \<and> ((detect_response_conflict n r1 r2 ctx = None) = (sev = LOW))
       \<and> (\<forall>c. detect_response_conflict n r1 r2 ctx = Some c \<longrightarrow> severity c = sev)
       \<and> (\<forall>r1' r2'.
             ((high_impact_hit text \<longrightarrow> high_impact_hit (merged_conflict_text r1' r2'))
                \<and> (blocking_hit text \<longrightarrow> blocking_hit (merged_conflict_text r1' r2'))
                \<and> (performance_hit text \<longrightarrow> performance_hit (merged_conflict_text r1' r2'))
              \<or> matched_groups text < matched_groups (merged_conflict_text r1' r2'))
             \<longrightarrow> severity_rank sev
                   \<le> severity_rank (snd (classify_conflict (d_potential_conflicts r1')
                                           (d_potential_conflicts r2') r1' r2'))))"
proof -
  let ?c1 = "d_potential_conflicts r1" and ?c2 = "d_potential_conflicts r2"
  let ?text = "lower (str (PDict (dict_update ?c1 ?c2)))"
  let ?sev = "snd (classify_conflict ?c1 ?c2 r1 r2)"
  have sev: "?sev = severity_of_indicators (additive_total ?text)"
    by (rule classify_conflict_total)
  have a: "map_of (dict_update ?c1 ?c2) = map_of ?c1 ++ map_of (rev ?c2)"
    by (rule map_of_dict_update)
  have tot: "additive_total ?text
      = (if any_in [''security'', ''architecture'', ''database''] ?text then 2 else 0)
        + (if any_in [''cannot'', ''incompatible'', ''conflicts'', ''contradicts''] ?text then 2 else 0)
        + (if any_in [''performance'', ''scalability'', ''bottleneck''] ?text then 1 else (0::nat))"
    by (simp only: additive_total_def high_impact_hit_def blocking_hit_def performance_hit_def)
  have b: "?sev = (if additive_total ?text \<ge> 4 then CRITICAL
                 else if additive_total ?text \<ge> 2 then HIGH
                 else if additive_total ?text \<ge> 1 then MODERATE
                 else LOW)"
    unfolding sev severity_of_indicators_def ..
  have c: "(detect_response_conflict n r1 r2 ctx = None) = (?sev = LOW)"
    using assms by (rule detect_none_iff_low)
  have d: "\<forall>c. detect_response_conflict n r1 r2 ctx = Some c \<longrightarrow> severity c = ?sev"
    using detect_some_fields(1) by blast
  have e: "\<forall>r1' r2'.
             ((high_impact_hit ?text \<longrightarrow> high_impact_hit (merged_conflict_text r1' r2'))
                \<and> (blocking_hit ?text \<longrightarrow> blocking_hit (merged_conflict_text r1' r2'))
                \<and> (performance_hit ?text \<longrightarrow> performance_hit (merged_conflict_text r1' r2'))
              \<or> matched_groups ?text < matched_groups (merged_conflict_text r1' r2'))
             \<longrightarrow> severity_rank ?sev
                   \<le> severity_rank (snd (classify_conflict (d_potential_conflicts r1')
                                           (d_potential_conflicts r2') r1' r2'))"
    unfolding sev classify_conflict_total merged_conflict_text_def
    using rank_superset rank_count by blast
  from a b c d e show ?thesis
    unfolding Let_def tot [symmetric] by blast
qed

theorem conflict_severity_additive_witness:
  "d_potential_conflicts architect_reply \<noteq> []
   \<and> snd (classify_conflict (d_potential_conflicts architect_reply)
            (d_potential_conflicts security_reply) architect_reply security_reply) = HIGH
   \<and> detect_response_conflict 0 architect_reply security_reply [] \<noteq> None"
proof -
  let ?text = "lower (str (PDict (dict_update (d_potential_conflicts architect_reply)
                                     (d_potential_conflicts security_reply))))"
  let ?sev = "snd (classify_conflict (d_potential_conflicts architect_reply)
            (d_potential_conflicts security_reply) architect_reply security_reply)"
  have p: "d_potential_conflicts architect_reply \<noteq> []"
    by code_simp
  have t: "(if any_in [''security'', ''architecture'', ''database''] ?text then 2 else 0)
         + (if any_in [''cannot'', ''incompatible'', ''conflicts'', ''contradicts''] ?text then 2 else 0)
         + (if any_in [''performance'', ''scalability'', ''bottleneck''] ?text then 1 else (0::nat)) = 3"
    by code_simp
  have q: "d_potential_conflicts architect_reply \<noteq> [] \<or> d_potential_conflicts security_reply \<noteq> []"
    using p by simp
  note th = conflict_severity_additive [OF q, of 0 "[]", unfolded Let_def]
  from th have "?sev = (if 4 \<le> (3::nat) then CRITICAL else if 2 \<le> (3::nat) then HIGH
                       else if 1 \<le> (3::nat) then MODERATE else LOW)"
    unfolding t by (rule conjunct1 [OF conjunct2])
  then have s: "?sev = HIGH" by simp
  from th have "(detect_response_conflict 0 architect_reply security_reply [] = None) = (?sev = LOW)"
    by (rule conjunct1 [OF conjunct2 [OF conjunct2]])
  with s have "detect_response_conflict 0 architect_reply security_reply [] \<noteq> None"
    by simp
  with p s show ?thesis by blast
qed

subsection \<open>Quality metrics\<close>

lemma status_pass_iff: "(status_of s p w = ''pass'') = (s \<ge> p)"
  by (simp add: status_of_def)

lemma complexity_score_range:
  "0 \<le> score (assess_code_complexity rs ctx) \<and> score (assess_code_complexity rs ctx) \<le> 1"
  by (simp add: assess_code_complexity_def Let_def max_def)

lemma security_score_upper: "score (assess_security_score rs ctx) \<le> 1"
  by (simp add: assess_security_score_def Let_def)

lemma test_coverage_score_upper: "score (assess_test_coverage rs ctx) \<le> 1"
  by (simp add: assess_test_coverage_def Let_def)

lemma maintainability_score_upper: "score (assess_maintainability rs ctx) \<le> 1"
  by (simp add: assess_maintainability_def Let_def)

lemma technical_debt_score_lower: "0 \<le> score (assess_technical_debt rs ctx)"
  by (simp add: assess_technical_debt_def Let_def)

lemma metric_pass_iff_threshold:
  "(metric_status (assess_code_complexity rs ctx) = ''pass'')
      = (score (assess_code_complexity rs ctx) \<ge> 6 / 10)"
  "(metric_status (assess_test_coverage rs ctx) = ''pass'')
      = (score (assess_test_coverage rs ctx) \<ge> 6 / 10)"
  "(metric_status (assess_security_score rs ctx) = ''pass'')
      = (score (assess_security_score rs ctx) \<ge> 8 / 10)"
  "(metric_status (assess_technical_debt rs ctx) = ''pass'')
      = (score (assess_technical_debt rs ctx) \<ge> 7 / 10)"
  "(metric_status (assess_maintainability rs ctx) = ''pass'')
      = (score (assess_maintainability rs ctx) \<ge> 7 / 10)"
  by (simp_all only: assess_code_complexity_def assess_test_coverage_def
      assess_security_score_def assess_technical_debt_def assess_maintainability_def Let_def
      QualityMetrics.simps status_pass_iff)

text \<open>
  Claim C2. Every quality metric has a score in [0,1], and its status is "pass" exactly
  when the score reaches the metric's threshold. The technical-debt assessor clamps its
  score from below only: for one response whose result mentions refactoring the debt risk
  is -0.1 and the score is 1.1, above 1, with status "pass"; the metric is one of those
  \<open>_assess_code_quality\<close> returns.
\<close>

theorem technical_debt_score_above_one:
  "score (assess_technical_debt [refactor_response] []) = 11 / 10
   \<and> metric_status (assess_technical_debt [refactor_response] []) = ''pass''
   \<and> assess_technical_debt [refactor_response] [] \<in> set (assess_code_quality [refactor_response] [])"
  by code_simp

subsection \<open>Overlap and conflict records come from every pair of outputs\<close>

lemma index_pairs_enumerate:
  "set (index_pairs (enumerate k xs)) =
     {((k + i, xs ! i), (k + j, xs ! j)) | i j. i < j \<and> j < length xs}"
proof (induction xs arbitrary: k)
  case Nil
  then show ?case by simp
next
  case (Cons x xs)
  have head: "set (map (Pair (k, x)) (enumerate (Suc k) xs)) =
      {((k + 0, (x # xs) ! 0), (k + j, (x # xs) ! j)) | j. 0 < j \<and> j < length (x # xs)}"
    (is "?L = ?R")
  proof
    show "?L \<subseteq> ?R"
    proof
      fix p assume "p \<in> ?L"
      then obtain q where q: "q \<in> set (enumerate (Suc k) xs)" and p: "p = ((k, x), q)" by auto
      from q obtain j where j: "j < length xs" "q = (Suc k + j, xs ! j)"
        by (auto simp: in_set_conv_nth nth_enumerate_eq)
      then have "p = ((k + 0, (x # xs) ! 0), (k + Suc j, (x # xs) ! Suc j)) \<and> 0 < Suc j \<and> Suc j < length (x # xs)"
        using p by simp
      then show "p \<in> ?R" by blast
    qed
    show "?R \<subseteq> ?L"
    proof
      fix p assume "p \<in> ?R"
      then obtain j where j: "0 < j" "j < length (x # xs)" "p = ((k + 0, (x # xs) ! 0), (k + j, (x # xs) ! j))"
        by blast
      then obtain j' where j': "j = Suc j'" by (cases j) auto
      with j have "j' < length xs" by simp
      then have "(Suc k + j', xs ! j') \<in> set (enumerate (Suc k) xs)"
        by (auto simp: in_set_conv_nth nth_enumerate_eq intro!: exI[of _ j'])
      with j j' show "p \<in> ?L" by auto
    qed
  qed
  have tail: "set (index_pairs (enumerate (Suc k) xs)) =
      {((k + i, (x # xs) ! i), (k + j, (x # xs) ! j)) | i j. 0 < i \<and> i < j \<and> j < length (x # xs)}"
    (is "?L = ?R")
  proof
    show "?L \<subseteq> ?R"
    proof
      fix p assume "p \<in> ?L"
      then obtain i j where ij: "i < j" "j < length xs" "p = ((Suc k + i, xs ! i), (Suc k + j, xs ! j))"
        unfolding Cons.IH by blast
      then have "p = ((k + Suc i, (x # xs) ! Suc i), (k + Suc j, (x # xs) ! Suc j))
                 \<and> 0 < Suc i \<and> Suc i < Suc j \<and> Suc j < length (x # xs)"
        by simp
      then show "p \<in> ?R" by blast
    qed
    show "?R \<subseteq> ?L"
    proof
      fix p assume "p \<in> ?R"
      then obtain i j where ij: "0 < i" "i < j" "j < length (x # xs)"
          "p = ((k + i, (x # xs) ! i), (k + j, (x # xs) ! j))"
        by blast
      then obtain i' j' where s: "i = Suc i'" "j = Suc j'"
        by (cases i; cases j) auto
      with ij have "i' < j'" "j' < length xs" "p = ((Suc k + i', xs ! i'), (Suc k + j', xs ! j'))"
        by simp_all
      then show "p \<in> ?L" unfolding Cons.IH by blast
    qed
  qed
  have "set (index_pairs (enumerate k (x # xs))) =
          set (map (Pair (k, x)) (enumerate (Suc k) xs)) \<union> set (index_pairs (enumerate (Suc k) xs))"
    by simp
  also have "\<dots> = {((k + i, (x # xs) ! i), (k + j, (x # xs) ! j)) | i j. i < j \<and> j < length (x # xs)}"
    (is "_ = ?T")
  proof
    show "set (map (Pair (k, x)) (enumerate (Suc k) xs)) \<union> set (index_pairs (enumerate (Suc k) xs)) \<subseteq> ?T"
      unfolding head tail by blast
    show "?T \<subseteq> set (map (Pair (k, x)) (enumerate (Suc k) xs)) \<union> set (index_pairs (enumerate (Suc k) xs))"
    proof
      fix p assume "p \<in> ?T"
      then obtain i j where ij: "i < j" "j < length (x # xs)"
          "p = ((k + i, (x # xs) ! i), (k + j, (x # xs) ! j))"
        by blast
      show "p \<in> set (map (Pair (k, x)) (enumerate (Suc k) xs)) \<union> set (index_pairs (enumerate (Suc k) xs))"
      proof (cases "i = 0")
        case True
        with ij have "p \<in> {((k + 0, (x # xs) ! 0), (k + j, (x # xs) ! j)) | j. 0 < j \<and> j < length (x # xs)}"
          by blast
        then show ?thesis unfolding head by blast
      next
        case False
        with ij have "p \<in> {((k + i, (x # xs) ! i), (k + j, (x # xs) ! j)) | i j. 0 < i \<and> i < j \<and> j < length (x # xs)}"
          by blast
        then show ?thesis unfolding tail by blast
      qed
    qed
  qed
  finally show ?case .
qed

lemma response_pairs_set:
  "set (response_pairs rs) = {((i, rs ! i), (j, rs ! j)) | i j. i < j \<and> j < length rs}"
  using index_pairs_enumerate [of 0 rs] by (simp add: response_pairs_def)

lemma index_pairs_map:
  "index_pairs (map (map_prod id h) xs) = map (map_prod (map_prod id h) (map_prod id h)) (index_pairs xs)"
  by (induction xs) auto

lemma enumerate_map: "enumerate k (map h xs) = map (map_prod id h) (enumerate k xs)"
  by (induction xs arbitrary: k) auto

lemma response_pairs_map:
  "response_pairs (map h rs) = map (map_prod (map_prod id h) (map_prod id h)) (response_pairs rs)"
  by (simp add: response_pairs_def enumerate_map index_pairs_map)

lemma map_filter_map: "List.map_filter f (map g xs) = List.map_filter (f \<circ> g) xs"
  by (induction xs) (auto simp: List.map_filter_def)

lemma find_overlap_areas_status:
  "find_overlap_areas (r1\<lparr>d_status := s1\<rparr>) (r2\<lparr>d_status := s2\<rparr>) = find_overlap_areas r1 r2"
  by (simp add: find_overlap_areas_def result_text_of_def)

lemma overlap_helpers_status:
  "calculate_overlap_confidence (r1\<lparr>d_status := s1\<rparr>) (r2\<lparr>d_status := s2\<rparr>) a
     = calculate_overlap_confidence r1 r2 a"
  "assess_overlap_impact (r1\<lparr>d_status := s1\<rparr>) (r2\<lparr>d_status := s2\<rparr>) a
     = assess_overlap_impact r1 r2 a"
  "identify_affected_code_areas (r1\<lparr>d_status := s1\<rparr>) (r2\<lparr>d_status := s2\<rparr>)
     = identify_affected_code_areas r1 r2"
  "assess_architectural_impact (r1\<lparr>d_status := s1\<rparr>) (r2\<lparr>d_status := s2\<rparr>)
     = assess_architectural_impact r1 r2"
  "assess_technical_risk (r1\<lparr>d_status := s1\<rparr>) (r2\<lparr>d_status := s2\<rparr>) a
     = assess_technical_risk r1 r2 a"
  by (simp_all add: calculate_overlap_confidence_def assess_overlap_impact_def
      identify_affected_code_areas_def assess_architectural_impact_def
      assess_technical_risk_def result_text_of_def combined_result_text_def)

lemma detect_pair_overlap_status:
  "detect_pair_overlap ((i, r1\<lparr>d_status := s1\<rparr>), (j, r2\<lparr>d_status := s2\<rparr>)) = detect_pair_overlap ((i, r1), (j, r2))"
  by (simp add: detect_pair_overlap_def find_overlap_areas_status overlap_helpers_status Let_def)

lemma conflict_helpers_status:
  "classify_conflict c1 c2 (r1\<lparr>d_status := s1\<rparr>) (r2\<lparr>d_status := s2\<rparr>) = classify_conflict c1 c2 r1 r2"
  "generate_conflict_description (r1\<lparr>d_status := s1\<rparr>) (r2\<lparr>d_status := s2\<rparr>) ct
     = generate_conflict_description r1 r2 ct"
  "identify_conflict_root_cause (r1\<lparr>d_status := s1\<rparr>) (r2\<lparr>d_status := s2\<rparr>) ct
     = identify_conflict_root_cause r1 r2 ct"
  "identify_technical_conflict_areas (r1\<lparr>d_status := s1\<rparr>) (r2\<lparr>d_status := s2\<rparr>)
     = identify_technical_conflict_areas r1 r2"
  "assess_conflict_architecture_impact (r1\<lparr>d_status := s1\<rparr>) (r2\<lparr>d_status := s2\<rparr>)
     = assess_conflict_architecture_impact r1 r2"
  "analyze_performance_implications (r1\<lparr>d_status := s1\<rparr>) (r2\<lparr>d_status := s2\<rparr>)
     = analyze_performance_implications r1 r2"
  "analyze_security_implications (r1\<lparr>d_status := s1\<rparr>) (r2\<lparr>d_status := s2\<rparr>)
     = analyze_security_implications r1 r2"
  "generate_resolution_options (r1\<lparr>d_status := s1\<rparr>) (r2\<lparr>d_status := s2\<rparr>) ct
     = generate_resolution_options r1 r2 ct"
  by (simp_all add: classify_conflict_def generate_conflict_description_def
      identify_conflict_root_cause_def identify_technical_conflict_areas_def
      assess_conflict_architecture_impact_def analyze_performance_implications_def
      analyze_security_implications_def generate_resolution_options_def combined_result_text_def)

lemma detect_response_conflict_status:
  "detect_response_conflict n (r1\<lparr>d_status := s1\<rparr>) (r2\<lparr>d_status := s2\<rparr>) ctx = detect_response_conflict n r1 r2 ctx"
  by (simp add: detect_response_conflict_def conflict_helpers_status Let_def case_prod_beta)

lemma detect_pair_overlap_status':
  "detect_pair_overlap (map_prod (map_prod id (\<lambda>r. r\<lparr>d_status := g r\<rparr>))
              (map_prod id (\<lambda>r. r\<lparr>d_status := g r\<rparr>)) x) = detect_pair_overlap x"
proof -
  obtain i r1 j r2 where x: "x = ((i, r1), (j, r2))"
    by (metis surj_pair)
  show ?thesis unfolding x by (simp add: detect_pair_overlap_status)
qed

lemma detect_agent_overlaps_status:
  "detect_agent_overlaps (map (\<lambda>r. r\<lparr>d_status := g r\<rparr>) rs) = detect_agent_overlaps rs"
  by (simp add: detect_agent_overlaps_def response_pairs_map map_filter_map o_def
      detect_pair_overlap_status')

lemma analyze_conflicts_status:
  "analyze_conflicts n (map (\<lambda>r. r\<lparr>d_status := g r\<rparr>) rs) ctx = analyze_conflicts n rs ctx"
  by (simp add: analyze_conflicts_def response_pairs_map map_filter_map o_def
      detect_response_conflict_status)

lemma map_filter_set: "set (List.map_filter f xs) = {y. \<exists>x \<in> set xs. f x = Some y}"
  by (force simp: List.map_filter_def image_iff)

lemma overlaps_pairwise:
  "(ov \<in> set (detect_agent_overlaps rs)) =
     (\<exists>i j. i < j \<and> j < length rs \<and> detect_pair_overlap ((i, rs ! i), (j, rs ! j)) = Some ov)"
  by (auto simp: detect_agent_overlaps_def map_filter_set response_pairs_set)

lemma conflicts_pairwise:
  "(c \<in> set (analyze_conflicts n rs ctx)) =
     (\<exists>i j. i < j \<and> j < length rs \<and> detect_response_conflict n (rs ! i) (rs ! j) ctx = Some c)"
  by (auto simp: analyze_conflicts_def map_filter_set response_pairs_set)


lemma loop_pairs_Suc:
  "loop_pairs (Suc n) = map (Pair 0) [Suc 0..<Suc n] @ map (\<lambda>p. (Suc (fst p), Suc (snd p))) (loop_pairs n)"
proof -
  have "loop_pairs (Suc n)
          = map (Pair 0) [Suc 0..<Suc n]
            @ concat (map (\<lambda>i. map (Pair i) [Suc i..<Suc n]) (map Suc [0..<n]))"
    by (simp add: loop_pairs_def upt_conv_Cons map_Suc_upt del: upt_Suc)
  also have "concat (map (\<lambda>i. map (Pair i) [Suc i..<Suc n]) (map Suc [0..<n]))
          = map (\<lambda>p. (Suc (fst p), Suc (snd p))) (loop_pairs n)"
    by (simp add: loop_pairs_def map_concat o_def map_Suc_upt [symmetric] del: upt_Suc)
  finally show ?thesis .
qed

lemma enumerate_nth: "enumerate k xs = map (\<lambda>j. (k + j, xs ! j)) [0..<length xs]"
  by (rule nth_equalityI) (simp_all add: nth_enumerate_eq)

lemma index_pairs_loop:
  "index_pairs (enumerate k xs)
     = map (\<lambda>p. ((k + fst p, xs ! fst p), (k + snd p, xs ! snd p))) (loop_pairs (length xs))"
proof (induction xs arbitrary: k)
  case Nil
  show ?case by (simp add: loop_pairs_def)
next
  case (Cons x xs)
  have h: "map (Pair (k, x)) (enumerate (Suc k) xs)
      = map (\<lambda>p. ((k + fst p, (x # xs) ! fst p), (k + snd p, (x # xs) ! snd p)))
          (map (Pair 0) [Suc 0..<Suc (length xs)])"
    by (simp add: enumerate_nth map_Suc_upt [symmetric] o_def del: upt_Suc)
  have t: "index_pairs (enumerate (Suc k) xs)
      = map (\<lambda>p. ((k + fst p, (x # xs) ! fst p), (k + snd p, (x # xs) ! snd p)))
          (map (\<lambda>p. (Suc (fst p), Suc (snd p))) (loop_pairs (length xs)))"
    by (simp add: Cons.IH o_def)
  show ?case
    using h t by (simp add: loop_pairs_Suc del: upt_Suc)
qed

lemma response_pairs_loop:
  "response_pairs rs = map (\<lambda>p. ((fst p, rs ! fst p), (snd p, rs ! snd p))) (loop_pairs (length rs))"
  using index_pairs_loop [of 0 rs] by (simp add: response_pairs_def)

lemma loop_pairs_set: "set (loop_pairs n) = {(i, j). i < j \<and> j < n}"
proof (induction n)
  case 0
  show ?case by (simp add: loop_pairs_def)
next
  case (Suc n)
  have "set (loop_pairs (Suc n))
          = Pair 0 ` {Suc 0..<Suc n} \<union> (\<lambda>p. (Suc (fst p), Suc (snd p))) ` {(i, j). i < j \<and> j < n}"
    by (simp add: loop_pairs_Suc Suc.IH del: upt_Suc)
  also have "\<dots> = {(i, j). i < j \<and> j < Suc n}"
  proof (rule set_eqI)
    fix p :: "nat \<times> nat"
    obtain i j where p: "p = (i, j)" by (cases p)
    show "(p \<in> Pair 0 ` {Suc 0..<Suc n} \<union> (\<lambda>p. (Suc (fst p), Suc (snd p))) ` {(i, j). i < j \<and> j < n})
            = (p \<in> {(i, j). i < j \<and> j < Suc n})"
    proof (cases i)
      case 0
      then show ?thesis unfolding p by auto
    next
      case (Suc i')
      show ?thesis
      proof (cases j)
        case 0
        then show ?thesis unfolding p Suc by auto
      next
        case (Suc j')
        show ?thesis unfolding p \<open>i = Suc i'\<close> Suc by (auto simp: image_iff)
      qed
    qed
  qed
  finally show ?case .
qed

lemma loop_pairs_distinct: "distinct (loop_pairs n)"
proof (induction n)
  case 0
  show ?case by (simp add: loop_pairs_def)
next
  case (Suc n)
  have "distinct (map (\<lambda>p. (Suc (fst p), Suc (snd p))) (loop_pairs n))"
    using Suc.IH by (simp add: distinct_map inj_on_def prod_eq_iff)
  moreover have "distinct (map (Pair 0) [Suc 0..<Suc n])"
    by (simp add: distinct_map inj_on_def del: upt_Suc)
  moreover have "set (map (Pair 0) [Suc 0..<Suc n])
                   \<inter> set (map (\<lambda>p. (Suc (fst p), Suc (snd p))) (loop_pairs n)) = {}"
    by (auto simp del: upt_Suc)
  ultimately show ?case
    by (simp add: loop_pairs_Suc del: upt_Suc)
qed

lemma overlaps_loop:
  "detect_agent_overlaps rs
     = List.map_filter (\<lambda>p. detect_pair_overlap ((fst p, rs ! fst p), (snd p, rs ! snd p)))
         (loop_pairs (length rs))"
  by (simp add: detect_agent_overlaps_def response_pairs_loop map_filter_map o_def)

lemma conflicts_loop:
  "analyze_conflicts n rs ctx
     = List.map_filter (\<lambda>p. detect_response_conflict n (rs ! fst p) (rs ! snd p) ctx)
         (loop_pairs (length rs))"
  by (simp add: analyze_conflicts_def response_pairs_loop map_filter_map o_def)

lemma detect_pair_overlap_none:
  "(detect_pair_overlap ((i, r1), (j, r2)) = None) = (find_overlap_areas r1 r2 = [])"
  by (simp add: detect_pair_overlap_def Let_def)

lemma detect_response_conflict_none:
  "(detect_response_conflict n r1 r2 ctx = None)
     = (d_potential_conflicts r1 = [] \<and> d_potential_conflicts r2 = []
        \<or> snd (classify_conflict (d_potential_conflicts r1) (d_potential_conflicts r2) r1 r2) = LOW)"
  by (auto simp: detect_response_conflict_def Let_def case_prod_beta)

text \<open>
  Claim C6, as stated: no overlap record and no conflict record involves an output whose
  status is not "success". It fails: neither analysis reads the status. For a successful
  output that declares a conflict and shares a recommendation key with a failed output,
  one conflict record and one overlap record are emitted, each naming the failed output.
\<close>

theorem failed_output_in_records:
  "d_status failed_reply = Some ''failed''
   \<and> map agents_involved (analyze_conflicts 0 [success_reply, failed_reply] [])
       = [[''security-consultant'', ''backend-builder'']]
   \<and> map agents (detect_agent_overlaps [success_reply, failed_reply])
       = [[''security-consultant'', ''backend-builder'']]"
  by code_simp

text \<open>
  Claim C6, amended. Overlap detection and conflict analysis compare every pair of
  positions i < j of the list they are given, in the order of the two nested loops and
  whatever the status of the outputs. Overwriting the status of every output changes
  neither list of records. The overlap list holds, in loop order, one record for each pair
  whose overlap-area list is not empty, and none for any other pair. The conflict list
  holds, in loop order, one record for each pair in which at least one output declares a
  non-empty conflict map and the classified severity is not low, and none for any other.
\<close>

theorem records_from_all_pairs:
  "detect_agent_overlaps (map (\<lambda>r. r\<lparr>d_status := g r\<rparr>) rs) = detect_agent_overlaps rs
   \<and> analyze_conflicts n (map (\<lambda>r. r\<lparr>d_status := g r\<rparr>) rs) ctx = analyze_conflicts n rs ctx
   \<and> detect_agent_overlaps rs
       = List.map_filter (\<lambda>p. detect_pair_overlap ((fst p, rs ! fst p), (snd p, rs ! snd p)))
           (loop_pairs (length rs))
   \<and> analyze_conflicts n rs ctx
       = List.map_filter (\<lambda>p. detect_response_conflict n (rs ! fst p) (rs ! snd p) ctx)
           (loop_pairs (length rs))
   \<and> distinct (loop_pairs (length rs))
   \<and> set (loop_pairs (length rs)) = {(i, j). i < j \<and> j < length rs}
   \<and> (\<forall>i j r1 r2. (detect_pair_overlap ((i, r1), (j, r2)) = None) = (find_overlap_areas r1 r2 = []))
   \<and> (\<forall>r1 r2. (detect_response_conflict n r1 r2 ctx = None)
         = (d_potential_conflicts r1 = [] \<and> d_potential_conflicts r2 = []
            \<or> snd (classify_conflict (d_potential_conflicts r1) (d_potential_conflicts r2) r1 r2) = LOW))"
  using detect_agent_overlaps_status [of g rs] analyze_conflicts_status [of n g rs ctx]
    overlaps_loop [of rs] conflicts_loop [of n rs ctx] loop_pairs_distinct [of "length rs"]
    loop_pairs_set [of "length rs"] detect_pair_overlap_none detect_response_conflict_none
  by (intro conjI allI) assumption+

theorem records_from_all_pairs_witness:
  "detect_agent_overlaps (map (\<lambda>r. r\<lparr>d_status := Some ''success''\<rparr>) [success_reply, failed_reply])
     = detect_agent_overlaps [success_reply, failed_reply]
   \<and> analyze_conflicts 0 (map (\<lambda>r. r\<lparr>d_status := Some ''success''\<rparr>) [success_reply, failed_reply]) []
     = analyze_conflicts 0 [success_reply, failed_reply] []
   \<and> loop_pairs (length [success_reply, failed_reply]) = [(0, 1)]
   \<and> length (detect_agent_overlaps [success_reply, failed_reply]) = 1
   \<and> length (analyze_conflicts 0 [success_reply, failed_reply] []) = 1"
proof -
  have l: "loop_pairs (length [success_reply, failed_reply]) = [(0, 1)]
         \<and> length (detect_agent_overlaps [success_reply, failed_reply]) = 1
         \<and> length (analyze_conflicts 0 [success_reply, failed_reply] []) = 1"
    by code_simp
  from records_from_all_pairs [of "\<lambda>r. Some ''success''" "[success_reply, failed_reply]" 0 "[]"] l
  show ?thesis by blast
qed

subsection \<open>Conflict analysis run twice\<close>

lemma detect_response_conflict_id_erased:
  "map_option (\<lambda>c. c\<lparr>conflict_id := []\<rparr>) (detect_response_conflict n r1 r2 ctx)
     = map_option (\<lambda>c. c\<lparr>conflict_id := []\<rparr>) (detect_response_conflict n' r1 r2 ctx')"
  by (simp add: detect_response_conflict_def Let_def case_prod_beta)

lemma map_map_filter: "map f (List.map_filter g xs) = List.map_filter (map_option f \<circ> g) xs"
  by (induction xs) (auto simp: List.map_filter_def)

lemma analyze_conflicts_id_erased:
  "map (\<lambda>c. c\<lparr>conflict_id := []\<rparr>) (analyze_conflicts n rs ctx)
     = map (\<lambda>c. c\<lparr>conflict_id := []\<rparr>) (analyze_conflicts n' rs ctx')"
  by (simp add: analyze_conflicts_def map_map_filter o_def
      detect_response_conflict_id_erased [of n _ _ ctx n' ctx'])

lemma detect_response_conflict_context:
  "detect_response_conflict n r1 r2 ctx = detect_response_conflict n r1 r2 ctx'"
  by (simp add: detect_response_conflict_def)

lemma analyze_conflicts_context:
  "analyze_conflicts n rs ctx = analyze_conflicts n rs ctx'"
  by (simp add: analyze_conflicts_def detect_response_conflict_context [of n _ _ ctx ctx'])

lemma digit_char_inj:
  assumes "d < 16" and "d' < 16" and "digit_char d = digit_char d'"
  shows "d = d'"
proof -
  have "distinct ''0123456789abcdef''" by simp
  moreover have "length ''0123456789abcdef'' = 16" by simp
  ultimately show ?thesis
    using assms unfolding digit_char_def by (metis nth_eq_iff_index_eq)
qed

lemma string_of_nat_nonempty: "string_of_nat n \<noteq> []"
  by (subst string_of_nat.simps) simp

lemma string_of_nat_inj: "string_of_nat n = string_of_nat m \<Longrightarrow> n = m"
proof (induction n arbitrary: m rule: less_induct)
  case (less n)
  show ?case
  proof (cases "n < 10")
    case n: True
    show ?thesis
    proof (cases "m < 10")
      case True
      with n less.prems have "digit_char n = digit_char m"
        by (simp add: string_of_nat.simps [of n] string_of_nat.simps [of m])
      with n True show ?thesis using digit_char_inj [of n m] by simp
    next
      case False
      with n less.prems have "string_of_nat (m div 10) = []"
        by (simp add: string_of_nat.simps [of n] string_of_nat.simps [of m])
      then show ?thesis by (simp add: string_of_nat_nonempty)
    qed
  next
    case n: False
    show ?thesis
    proof (cases "m < 10")
      case True
      with n less.prems have "string_of_nat (n div 10) = []"
        by (simp add: string_of_nat.simps [of n] string_of_nat.simps [of m])
      then show ?thesis by (simp add: string_of_nat_nonempty)
    next
      case False
      with n less.prems
      have eq: "string_of_nat (n div 10) @ [digit_char (n mod 10)]
                  = string_of_nat (m div 10) @ [digit_char (m mod 10)]"
        by (simp add: string_of_nat.simps [of n] string_of_nat.simps [of m])
      then have "string_of_nat (n div 10) = string_of_nat (m div 10)"
        and d: "digit_char (n mod 10) = digit_char (m mod 10)"
        by simp_all
      moreover have "n div 10 < n" using n by simp
      ultimately have "n div 10 = m div 10" using less.IH by blast
      moreover have "n mod 10 = m mod 10"
        using d digit_char_inj [of "n mod 10" "m mod 10"] by simp
      ultimately show ?thesis by (metis div_mult_mod_eq)
    qed
  qed
qed

lemma conflict_record_id:
  assumes "c \<in> set (analyze_conflicts n rs ctx)"
  shows "\<exists>a1 a2. agents_involved c = [a1, a2]
           \<and> conflict_id c = ''conflict_'' @ a1 @ ''_'' @ a2 @ ''_'' @ string_of_nat n"
proof -
  from assms obtain i j where "detect_response_conflict n (rs ! i) (rs ! j) ctx = Some c"
    unfolding conflicts_pairwise by blast
  from detect_some_fields(3,4) [OF this] show ?thesis by blast
qed

lemma analyze_conflicts_equal_iff:
  "(analyze_conflicts n rs ctx = analyze_conflicts n' rs ctx')
     = (n = n' \<or> analyze_conflicts n rs ctx = [])"
proof
  assume eq: "analyze_conflicts n rs ctx = analyze_conflicts n' rs ctx'"
  show "n = n' \<or> analyze_conflicts n rs ctx = []"
  proof (cases "analyze_conflicts n rs ctx")
    case Nil
    then show ?thesis by simp
  next
    case (Cons c cs)
    then have c: "c \<in> set (analyze_conflicts n rs ctx)" by simp
    with eq have c': "c \<in> set (analyze_conflicts n' rs ctx')" by simp
    from conflict_record_id [OF c] obtain a1 a2 where
      1: "agents_involved c = [a1, a2]"
         "conflict_id c = ''conflict_'' @ a1 @ ''_'' @ a2 @ ''_'' @ string_of_nat n"
      by blast
    from conflict_record_id [OF c'] obtain b1 b2 where
      2: "agents_involved c = [b1, b2]"
         "conflict_id c = ''conflict_'' @ b1 @ ''_'' @ b2 @ ''_'' @ string_of_nat n'"
      by blast
    from 1 2 have "string_of_nat n = string_of_nat n'" by simp
    then show ?thesis by (simp add: string_of_nat_inj)
  qed
next
  assume "n = n' \<or> analyze_conflicts n rs ctx = []"
  then show "analyze_conflicts n rs ctx = analyze_conflicts n' rs ctx'"
  proof
    assume "n = n'"
    then show ?thesis using analyze_conflicts_context [of n rs ctx ctx'] by simp
  next
    assume e: "analyze_conflicts n rs ctx = []"
    from analyze_conflicts_id_erased [of n rs ctx n' ctx'] e
    show ?thesis by simp
  qed
qed

text \<open>
  Claim C8, as stated: analysing the same outputs twice yields identical conflict records,
  all fields included. It fails on the conflict id, which ends with the length of the
  engine's conflict history: the first analysis of the two example responses by a new
  engine yields the id ending in 0 and appends its conflict to the history, the second
  analysis of the same responses yields the id ending in 1.
\<close>

theorem conflict_ids_differ_on_rerun:
  "map conflict_id
     (conflict_analysis (fst (analyze_agent_responses new_engine [architect_reply, security_reply] [])))
     = [''conflict_senior-architect_security-consultant_0'']
   \<and> map conflict_id
     (conflict_analysis (fst (analyze_agent_responses
        (snd (analyze_agent_responses new_engine [architect_reply, security_reply] []))
        [architect_reply, security_reply] [])))
     = [''conflict_senior-architect_security-consultant_1'']"
  by code_simp

text \<open>
  Claim C8, amended. For any two states of the engine (and any request contexts), the
  conflict records for the same outputs agree in every field but the conflict id; the id of
  each record is conflict_, the two agent names and the length of the engine's conflict
  history at the time of the analysis, joined by underscores; the two record lists are
  identical if and only if the two histories have the same length or no conflict is found;
  each analysis appends its records to the history, so that analysing the same outputs
  again on the engine it leaves behind repeats the records exactly when there are none.
\<close>

theorem conflict_records_repeat_up_to_id:
  "(let a = conflict_analysis (fst (analyze_agent_responses e rs ctx));
        b = conflict_analysis (fst (analyze_agent_responses e' rs ctx'))
    in map (\<lambda>c. c\<lparr>conflict_id := []\<rparr>) a = map (\<lambda>c. c\<lparr>conflict_id := []\<rparr>) b
     \<and> (\<forall>c \<in> set a. \<exists>a1 a2. agents_involved c = [a1, a2]
            \<and> conflict_id c = ''conflict_'' @ a1 @ ''_'' @ a2 @ ''_''
                                 @ string_of_nat (length (conflict_history e)))
     \<and> ((a = b) = (length (conflict_history e) = length (conflict_history e') \<or> a = []))
     \<and> conflict_history (snd (analyze_agent_responses e rs ctx)) = conflict_history e @ a
     \<and> ((conflict_analysis (fst (analyze_agent_responses
               (snd (analyze_agent_responses e rs ctx)) rs ctx')) = a) = (a = [])))"
proof -
  let ?n = "length (conflict_history e)" and ?n' = "length (conflict_history e')"
  have a: "conflict_analysis (fst (analyze_agent_responses e rs ctx)) = analyze_conflicts ?n rs ctx"
    by (simp add: analyze_agent_responses_def Let_def)
  have b: "conflict_analysis (fst (analyze_agent_responses e' rs ctx')) = analyze_conflicts ?n' rs ctx'"
    by (simp add: analyze_agent_responses_def Let_def)
  have h: "conflict_history (snd (analyze_agent_responses e rs ctx))
             = conflict_history e @ analyze_conflicts ?n rs ctx"
    by (simp add: analyze_agent_responses_def update_intelligence_state_def Let_def)
  have r: "conflict_analysis (fst (analyze_agent_responses
               (snd (analyze_agent_responses e rs ctx)) rs ctx'))
             = analyze_conflicts (?n + length (analyze_conflicts ?n rs ctx)) rs ctx'"
    by (simp add: analyze_agent_responses_def update_intelligence_state_def Let_def)
  have again: "(analyze_conflicts (?n + length (analyze_conflicts ?n rs ctx)) rs ctx'
                  = analyze_conflicts ?n rs ctx) = (analyze_conflicts ?n rs ctx = [])"
    using analyze_conflicts_equal_iff
            [of ?n rs ctx "?n + length (analyze_conflicts ?n rs ctx)" ctx']
    by auto
  show ?thesis
    unfolding Let_def r a b h
    using analyze_conflicts_id_erased [of ?n rs ctx ?n' ctx']
      analyze_conflicts_equal_iff [of ?n rs ctx ?n' ctx'] conflict_record_id [of _ ?n rs ctx]
      again
    by blast
qed

theorem conflict_records_repeat_up_to_id_witness:
  "length (conflict_history new_engine)
     = length (conflict_history (snd (analyze_agent_responses new_engine [refactor_response] [])))
   \<and> snd (analyze_agent_responses new_engine [refactor_response] []) \<noteq> new_engine
   \<and> conflict_analysis (fst (analyze_agent_responses new_engine [architect_reply, security_reply] []))
       \<noteq> []
   \<and> conflict_analysis (fst (analyze_agent_responses new_engine [architect_reply, security_reply] []))
       = conflict_analysis (fst (analyze_agent_responses
           (snd (analyze_agent_responses new_engine [refactor_response] []))
           [architect_reply, security_reply] []))"
proof -
  have l: "length (conflict_history new_engine)
     = length (conflict_history (snd (analyze_agent_responses new_engine [refactor_response] [])))"
    by code_simp
  have d: "snd (analyze_agent_responses new_engine [refactor_response] []) \<noteq> new_engine"
    by code_simp
  have n: "conflict_analysis (fst (analyze_agent_responses new_engine [architect_reply, security_reply] []))
       \<noteq> []"
    by code_simp
  from conflict_records_repeat_up_to_id
         [of new_engine "[architect_reply, security_reply]" "[]"
             "snd (analyze_agent_responses new_engine [refactor_response] [])" "[]", unfolded Let_def]
       l d n
  show ?thesis by blast
qed

subsection \<open>The report of an agent without validation history\<close>

lemma keys_dict_set: "set (keys (dict_set d k x)) = insert k (set (keys d))"
  by (induction d) (force simp: keys_def)+

lemma dict_get_None: "(dict_get d k = None) = (k \<notin> set (keys d))"
  by (simp add: dict_get_def keys_def map_of_eq_None_iff)

lemma new_validator_matches: "tracking_matches_history new_validator"
  by (simp add: tracking_matches_history_def new_validator_def keys_def)

lemma update_agent_tracking_keys:
  "set (keys (agent_methodology_tracking (update_agent_tracking v name res)))
     = insert name (set (keys (agent_methodology_tracking v)))"
  by (simp add: update_agent_tracking_def Let_def keys_dict_set)

lemma update_agent_tracking_history:
  "validation_history (update_agent_tracking v name res) = validation_history v"
  by (simp add: update_agent_tracking_def Let_def)

lemma agent_name_add:
  "agent_name (add_issue sev m ty d r res) = agent_name res"
  "agent_name (add_strengths ss res) = agent_name res"
  "agent_name (add_improvements ss res) = agent_name res"
  by (simp_all add: add_issue_def add_strengths_def add_improvements_def)

lemma validators_agent_name:
  "agent_name (validate_clean_architecture r res) = agent_name res"
  "agent_name (validate_solid_principles r res) = agent_name res"
  "agent_name (validate_owasp_security r res) = agent_name res"
  "agent_name (validate_nist_cybersecurity r res) = agent_name res"
  "agent_name (validate_ux_design_thinking r res) = agent_name res"
  "agent_name (validate_rest_api_design r res) = agent_name res"
  "agent_name (validate_microservices_patterns r res) = agent_name res"
  "agent_name (validate_generic_methodology r res mt) = agent_name res"
  by (simp_all add: validate_clean_architecture_def validate_solid_principles_def
      validate_owasp_security_def validate_nist_cybersecurity_def validate_ux_design_thinking_def
      validate_rest_api_design_def validate_microservices_patterns_def
      validate_generic_methodology_def Let_def agent_name_add if_distrib [of agent_name])

lemma run_validator_agent_name: "agent_name (run_validator mt r res) = agent_name res"
  by (simp add: run_validator_def validators_agent_name)

lemma validate_preserves_matches:
  assumes "tracking_matches_history v"
  shows "tracking_matches_history (snd (validate_agent_methodology v r m name))"
proof (cases "map_methodology_string_to_type m")
  case None
  then show ?thesis using assms by (simp add: validate_agent_methodology_def Let_def)
next
  case (Some mt)
  then show ?thesis using assms
    by (simp add: validate_agent_methodology_def Let_def tracking_matches_history_def
        update_agent_tracking_keys update_agent_tracking_history run_validator_agent_name)
qed

lemma report_state: "snd (get_agent_methodology_report v name) = v"
  by (simp add: get_agent_methodology_report_def Let_def split: option.splits)

lemma reachable_matches: "reachable_validator v \<Longrightarrow> tracking_matches_history v"
  by (induction rule: reachable_validator.induct)
     (simp_all add: new_validator_matches validate_preserves_matches report_state)

text \<open>
  Claim C10. For every agent name with no result in the validation history of a validator
  (a new one, or one left behind by any sequence of validations and reports),
  \<open>get_agent_methodology_report\<close> returns the error report "No validation history found
  for agent: <name>" and leaves the validator as it was; the name is then absent from the
  tracking table too.
\<close>

theorem report_without_history:
  assumes "reachable_validator v"
    and "name \<notin> set (map agent_name (validation_history v))"
  shows "dict_get (agent_methodology_tracking v) name = None
         \<and> get_agent_methodology_report v name
             = (ErrorReport (''No validation history found for agent: '' @ name), v)"
proof -
  from assms have "name \<notin> set (keys (agent_methodology_tracking v))"
    using reachable_matches [OF assms(1)] by (simp add: tracking_matches_history_def)
  then have "dict_get (agent_methodology_tracking v) name = None"
    by (simp add: dict_get_None)
  then show ?thesis
    by (simp add: get_agent_methodology_report_def)
qed

theorem report_without_history_witness:
  "validation_history (snd (validate_agent_methodology new_validator refactor_response
       ''SOLID principles'' ''backend-builder'')) \<noteq> []
   \<and> get_agent_methodology_report
       (snd (validate_agent_methodology new_validator refactor_response
               ''SOLID principles'' ''backend-builder'')) ''security-consultant''
     = (ErrorReport ''No validation history found for agent: security-consultant'',
        snd (validate_agent_methodology new_validator refactor_response
               ''SOLID principles'' ''backend-builder''))"
proof -
  let ?v = "snd (validate_agent_methodology new_validator refactor_response
               ''SOLID principles'' ''backend-builder'')"
  have r: "reachable_validator ?v"
    by (rule reachable_validator.validate [OF reachable_validator.new])
  have h: "''security-consultant'' \<notin> set (map agent_name (validation_history ?v))"
    by code_simp
  have n: "validation_history ?v \<noteq> []"
    by code_simp
  from report_without_history [OF r h] n show ?thesis by simp
qed

subsection \<open>Responses that mention nothing of the rubric\<close>

lemma any_in_append: "any_in (xs @ ys) t = (any_in xs t \<or> any_in ys t)"
  by (simp add: any_in_def)

lemma any_in_Cons: "any_in (x # xs) t = (isin x t \<or> any_in xs t)"
  by (simp add: any_in_def)

lemma any_in_Nil: "any_in [] t = False"
  by (simp add: any_in_def)

lemma mentioned_nil: "\<not> any_in kws t \<Longrightarrow> mentioned kws t = []"
  by (auto simp: mentioned_def any_in_def list_ex_iff filter_empty_conv)

lemma filter_any_nil:
  "\<not> any_in (concat (map f tbl)) t \<Longrightarrow> filter (\<lambda>p. any_in (f p) t) tbl = []"
  by (auto simp: any_in_def list_ex_iff filter_empty_conv)

lemma any_in_concat_elem:
  "\<not> any_in (concat (map f tbl)) t \<Longrightarrow> p \<in> set tbl \<Longrightarrow> \<not> any_in (f p) t"
  by (auto simp: any_in_def list_ex_iff)

lemma foldl_penalty:
  "foldl (\<lambda>s issue. s - issue_penalty (issue_severity issue)) a xs
     = a - sum_list (map (\<lambda>i. issue_penalty (issue_severity i)) xs)"
  by (induction xs arbitrary: a) simp_all

lemma score_formula:
  "calculate_validation_score res
     = max 0 (min 1 (1 - sum_list (map (\<lambda>i. issue_penalty (issue_severity i)) (issues res))
                       + min (2 / 10) (of_nat (length (strengths res)) * (5 / 100))))"
  by (simp add: calculate_validation_score_def Let_def foldl_penalty)

lemma add_simps:
  "issues (add_issue sev m ty d r res) = issues res @
      [\<lparr> issue_severity = sev, issue_methodology = m, issue_type = ty,
         issue_description = d, issue_recommendation = r \<rparr>]"
  "strengths (add_issue sev m ty d r res) = strengths res"
  "issues (add_strengths ss res) = issues res"
  "strengths (add_strengths ss res) = strengths res @ ss"
  "issues (add_improvements ss res) = issues res"
  "strengths (add_improvements ss res) = strengths res"
  by (simp_all add: add_issue_def add_strengths_def add_improvements_def)

lemma clean_no_keywords:
  assumes "\<not> any_in (rubric_keywords CLEAN_ARCHITECTURE) (lower (extract_full_response_text r))"
  shows "strengths (validate_clean_architecture r res) = strengths res"
    and "map issue_severity (issues (validate_clean_architecture r res))
           = map issue_severity (issues res) @ [V_ERROR, V_WARNING]"
proof -
  let ?t = "lower (extract_full_response_text r)"
  from assms have
    a: "\<not> any_in (concat (map (split_on CHR ''_'') clean_core_principles)) ?t" and
    b: "\<not> any_in (map unscore clean_required_concepts) ?t" and
    c: "\<not> any_in clean_layer_structure ?t"
    by (simp_all add: rubric_keywords_def any_in_append any_in_Cons)
  note f = filter_any_nil [OF a] mentioned_nil [OF b] c
  show "strengths (validate_clean_architecture r res) = strengths res"
    by (simp add: validate_clean_architecture_def Let_def f add_simps if_distrib [of strengths])
  show "map issue_severity (issues (validate_clean_architecture r res))
           = map issue_severity (issues res) @ [V_ERROR, V_WARNING]"
    by (simp add: validate_clean_architecture_def Let_def f add_simps if_distrib [of issues])
qed

lemma solid_strengths_nil:
  assumes "\<not> any_in (concat (map (\<lambda>p. fst (snd p)) tbl)) t"
    and "\<not> any_in (concat (map (\<lambda>p. snd (snd p)) tbl)) t"
    and "\<not> isin ''avoid'' t"
  shows "concat (map (\<lambda>p.
           (if any_in (fst (snd p)) t then [g p] else [])
           @ map h (filter (\<lambda>a. isin a t \<or> isin ''avoid'' t) (snd (snd p)))) tbl) = []"
  using assms by (induction tbl) (auto simp: any_in_def list_ex_iff filter_empty_conv)

lemma solid_no_keywords:
  assumes "\<not> any_in (rubric_keywords SOLID_PRINCIPLES) (lower (extract_full_response_text r))"
  shows "strengths (validate_solid_principles r res) = strengths res"
    and "map issue_severity (issues (validate_solid_principles r res))
           = map issue_severity (issues res) @ [V_CRITICAL]"
proof -
  let ?t = "lower (extract_full_response_text r)"
  from assms have
    a: "\<not> any_in (concat (map (\<lambda>p. fst (snd p)) solid_principles)) ?t" and
    b: "\<not> any_in (concat (map (\<lambda>p. snd (snd p)) solid_principles)) ?t" and
    c: "\<not> isin ''avoid'' ?t" and
    d: "\<not> any_in (map unscore solid_implementation_patterns) ?t"
    by (simp_all add: rubric_keywords_def any_in_append any_in_Cons)
  note f = filter_any_nil [OF a] solid_strengths_nil [OF a b c] mentioned_nil [OF d]
  show "strengths (validate_solid_principles r res) = strengths res"
    by (simp add: validate_solid_principles_def Let_def f add_simps if_distrib [of strengths])
  show "map issue_severity (issues (validate_solid_principles r res))
           = map issue_severity (issues res) @ [V_CRITICAL]"
    by (simp add: validate_solid_principles_def Let_def f add_simps if_distrib [of issues])
qed

lemma owasp_no_keywords:
  assumes "\<not> any_in (rubric_keywords OWASP_SECURITY) (lower (extract_full_response_text r))"
  shows "strengths (validate_owasp_security r res) = strengths res"
    and "map issue_severity (issues (validate_owasp_security r res))
           = map issue_severity (issues res) @ [V_ERROR]"
proof -
  let ?t = "lower (extract_full_response_text r)"
  from assms have
    a: "\<not> any_in (concat (map (\<lambda>v. snd (snd v)) owasp_top_10)) ?t" and
    b: "\<not> any_in (map unscore owasp_security_principles) ?t"
    by (simp_all add: rubric_keywords_def any_in_append any_in_Cons)
  note f = filter_any_nil [OF a] mentioned_nil [OF b]
  show "strengths (validate_owasp_security r res) = strengths res"
    by (simp add: validate_owasp_security_def Let_def f add_simps if_distrib [of strengths])
  show "map issue_severity (issues (validate_owasp_security r res))
           = map issue_severity (issues res) @ [V_ERROR]"
    by (simp add: validate_owasp_security_def Let_def f add_simps if_distrib [of issues])
qed

lemma nist_no_keywords:
  assumes "\<not> any_in (rubric_keywords NIST_CYBERSECURITY) (lower (extract_full_response_text r))"
  shows "strengths (validate_nist_cybersecurity r res) = strengths res"
    and "map issue_severity (issues (validate_nist_cybersecurity r res))
           = map issue_severity (issues res) @ [V_WARNING]"
proof -
  let ?t = "lower (extract_full_response_text r)"
  from assms have
    a: "\<not> any_in (concat (map (\<lambda>f. snd (snd f)) nist_framework_functions)) ?t"
    by (simp_all add: rubric_keywords_def any_in_append any_in_Cons)
  note f = filter_any_nil [OF a]
  show "strengths (validate_nist_cybersecurity r res) = strengths res"
    by (simp add: validate_nist_cybersecurity_def Let_def f add_simps if_distrib [of strengths])
  show "map issue_severity (issues (validate_nist_cybersecurity r res))
           = map issue_severity (issues res) @ [V_WARNING]"
    by (simp add: validate_nist_cybersecurity_def Let_def f add_simps if_distrib [of issues])
qed

lemma ux_no_keywords:
  assumes "\<not> any_in (rubric_keywords UX_DESIGN_THINKING) (lower (extract_full_response_text r))"
  shows "strengths (validate_ux_design_thinking r res) = strengths res"
    and "map issue_severity (issues (validate_ux_design_thinking r res))
           = map issue_severity (issues res) @ [V_WARNING]"
proof -
  let ?t = "lower (extract_full_response_text r)"
  from assms have
    a: "\<not> any_in ux_design_thinking_process ?t" and
    b: "\<not> any_in ux_don_norman_principles ?t" and
    c: "\<not> any_in (concat (map (\<lambda>h. split (unscore h)) ux_usability_heuristics)) ?t" and
    d: "\<not> any_in (map unscore ux_user_centered_design) ?t"
    by (simp_all add: rubric_keywords_def any_in_append any_in_Cons)
  note f = mentioned_nil [OF a] mentioned_nil [OF b] filter_any_nil [OF c] mentioned_nil [OF d]
  show "strengths (validate_ux_design_thinking r res) = strengths res"
    by (simp add: validate_ux_design_thinking_def Let_def f add_simps if_distrib [of strengths])
  show "map issue_severity (issues (validate_ux_design_thinking r res))
           = map issue_severity (issues res) @ [V_WARNING]"
    by (simp add: validate_ux_design_thinking_def Let_def f add_simps if_distrib [of issues])
qed

lemma rest_no_keywords:
  assumes "\<not> any_in (rubric_keywords REST_API_DESIGN) (lower (extract_full_response_text r))"
  shows "strengths (validate_rest_api_design r res) = strengths res"
    and "map issue_severity (issues (validate_rest_api_design r res))
           = map issue_severity (issues res) @ [V_WARNING]"
proof -
  let ?t = "lower (extract_full_response_text r)"
  from assms have
    a: "\<not> any_in (map unscore rest_principles) ?t" and
    b: "\<not> any_in (map lower rest_http_methods) ?t" and
    c: "\<not> any_in rest_status_codes ?t" and
    d: "\<not> any_in (map unscore rest_best_practices) ?t"
    by (simp_all add: rubric_keywords_def any_in_append any_in_Cons)
  note f = mentioned_nil [OF a] mentioned_nil [OF b] c mentioned_nil [OF d]
  show "strengths (validate_rest_api_design r res) = strengths res"
    by (simp add: validate_rest_api_design_def Let_def f add_simps if_distrib [of strengths])
  show "map issue_severity (issues (validate_rest_api_design r res))
           = map issue_severity (issues res) @ [V_WARNING]"
    by (simp add: validate_rest_api_design_def Let_def f add_simps if_distrib [of issues])
qed

lemma micro_no_keywords:
  assumes "\<not> any_in (rubric_keywords MICROSERVICES_PATTERNS) (lower (extract_full_response_text r))"
  shows "strengths (validate_microservices_patterns r res) = strengths res"
    and "map issue_severity (issues (validate_microservices_patterns r res))
           = map issue_severity (issues res) @ [V_WARNING]"
proof -
  let ?t = "lower (extract_full_response_text r)"
  from assms have
    a: "\<not> any_in (map unscore micro_core_patterns) ?t" and
    b: "\<not> any_in (map unscore micro_decomposition_patterns) ?t" and
    c: "\<not> any_in (map unscore micro_data_management) ?t" and
    d: "\<not> any_in (map unscore micro_observability) ?t"
    by (simp_all add: rubric_keywords_def any_in_append any_in_Cons)
  note f = mentioned_nil [OF a] mentioned_nil [OF b] mentioned_nil [OF c] mentioned_nil [OF d]
  show "strengths (validate_microservices_patterns r res) = strengths res"
    by (simp add: validate_microservices_patterns_def Let_def f add_simps if_distrib [of strengths])
  show "map issue_severity (issues (validate_microservices_patterns r res))
           = map issue_severity (issues res) @ [V_WARNING]"
    by (simp add: validate_microservices_patterns_def Let_def f add_simps if_distrib [of issues])
qed

lemma generic_no_keywords:
  assumes "\<not> isin (unscore (methodology_value mt)) (lower (extract_full_response_text r))"
  shows "strengths (validate_generic_methodology r res mt) = strengths res"
    and "map issue_severity (issues (validate_generic_methodology r res mt))
           = map issue_severity (issues res)
             @ (if length (lower (extract_full_response_text r)) < 100 then [V_WARNING] else [])
             @ [V_WARNING]"
  using assms
  by (simp_all add: validate_generic_methodology_def Let_def add_simps if_distrib [of strengths]
      if_distrib [of issues])

lemma run_validator_no_keywords:
  assumes "\<not> any_in (rubric_keywords mt) (lower (extract_full_response_text r))"
  shows "strengths (run_validator mt r res) = strengths res"
    and "map issue_severity (issues (run_validator mt r res))
           = map issue_severity (issues res)
             @ zero_keyword_severities mt (lower (extract_full_response_text r))"
proof -
  have g: "\<not> isin (unscore (methodology_value mt)) (lower (extract_full_response_text r))"
    if "mt = AGILE_DEVELOPMENT \<or> mt = TEST_DRIVEN_DEVELOPMENT \<or> mt = DOMAIN_DRIVEN_DESIGN"
    using assms that by (auto simp: rubric_keywords_def any_in_Cons any_in_Nil)
  show "strengths (run_validator mt r res) = strengths res"
    using assms g
    by (cases mt)
       (simp_all add: run_validator_def clean_no_keywords solid_no_keywords owasp_no_keywords
          nist_no_keywords ux_no_keywords rest_no_keywords micro_no_keywords generic_no_keywords)
  show "map issue_severity (issues (run_validator mt r res))
           = map issue_severity (issues res)
             @ zero_keyword_severities mt (lower (extract_full_response_text r))"
    using assms g
    by (cases mt)
       (simp_all add: run_validator_def zero_keyword_severities_def
          clean_no_keywords solid_no_keywords owasp_no_keywords
          nist_no_keywords ux_no_keywords rest_no_keywords micro_no_keywords generic_no_keywords)
qed

lemma validate_known:
  assumes "map_methodology_string_to_type claimed = Some mt"
  shows "issues (fst (validate_agent_methodology v r claimed name))
           = issues (run_validator mt r (fresh_result name claimed))"
    and "strengths (fst (validate_agent_methodology v r claimed name))
           = strengths (run_validator mt r (fresh_result name claimed))"
    and "validation_score (fst (validate_agent_methodology v r claimed name))
           = calculate_validation_score (run_validator mt r (fresh_result name claimed))"
    and "overall_compliance (fst (validate_agent_methodology v r claimed name))
           = determine_compliance_level
               (calculate_validation_score (run_validator mt r (fresh_result name claimed)))"
  using assms
  by (simp_all add: validate_agent_methodology_def Let_def fresh_result_def)

lemma score_from_severities:
  "calculate_validation_score res
     = max 0 (min 1 (1 - sum_list (map issue_penalty (map issue_severity (issues res)))
                       + min (2 / 10) (of_nat (length (strengths res)) * (5 / 100))))"
  by (simp add: score_formula o_def)

text \<open>
  Claim C9, as stated: an output that mentions zero keywords of its claimed methodology's
  rubric gets a validation score of at most 0.5 and a compliance level of poor or fair. It
  fails for a response whose only text is "refactor", claimed to follow the NIST
  Cybersecurity Framework: none of the strings the NIST validator searches for occurs in
  it, one warning is raised, and the score is 0.9 with compliance level excellent.
\<close>

theorem zero_keywords_scored_excellent:
  "map_methodology_string_to_type ''NIST Cybersecurity Framework'' = Some NIST_CYBERSECURITY
   \<and> \<not> any_in (rubric_keywords NIST_CYBERSECURITY) (lower (extract_full_response_text refactor_response))
   \<and> validation_score (fst (validate_agent_methodology new_validator refactor_response
                                ''NIST Cybersecurity Framework'' ''security-consultant'')) = 9 / 10
   \<and> overall_compliance (fst (validate_agent_methodology new_validator refactor_response
                                ''NIST Cybersecurity Framework'' ''security-consultant'')) = ''excellent''
   \<and> length (issues (fst (validate_agent_methodology new_validator refactor_response
                                ''NIST Cybersecurity Framework'' ''security-consultant''))) = 1"
  by code_simp

text \<open>
  Claim C9, amended. For every output whose claimed methodology is a recognised one and
  whose text contains none of the strings that methodology's validator searches for, at
  least one issue is raised and no strength is recorded; the score is 1 less the penalties
  of the issues raised, which is 0.7 with level fair for Clean Architecture and SOLID, 0.8
  with level good for OWASP, 0.9 with level excellent for NIST, UX design thinking, REST
  API design and microservices, and for the methodologies of the generic validator 0.8 with
  level good when the text is shorter than 100 characters and 0.9 with level excellent
  otherwise; so the score lies between 0.7 and 0.9.
\<close>

theorem zero_keyword_validation:
  assumes "map_methodology_string_to_type claimed = Some mt"
    and "\<not> any_in (rubric_keywords mt) (lower (extract_full_response_text response))"
  shows
    "(let res = fst (validate_agent_methodology v response claimed name);
          text = lower (extract_full_response_text response)
      in issues res \<noteq> [] \<and> strengths res = []
       \<and> validation_score res =
           (if mt = CLEAN_ARCHITECTURE \<or> mt = SOLID_PRINCIPLES then 7 / 10
            else if mt = OWASP_SECURITY then 8 / 10
            else if mt = NIST_CYBERSECURITY \<or> mt = UX_DESIGN_THINKING \<or> mt = REST_API_DESIGN
                    \<or> mt = MICROSERVICES_PATTERNS then 9 / 10
            else if length text < 100 then 8 / 10 else 9 / 10)
       \<and> overall_compliance res =
           (if mt = CLEAN_ARCHITECTURE \<or> mt = SOLID_PRINCIPLES then ''fair''
            else if mt = OWASP_SECURITY then ''good''
            else if mt = NIST_CYBERSECURITY \<or> mt = UX_DESIGN_THINKING \<or> mt = REST_API_DESIGN
                    \<or> mt = MICROSERVICES_PATTERNS then ''excellent''
            else if length text < 100 then ''good'' else ''excellent'')
       \<and> 7 / 10 \<le> validation_score res \<and> validation_score res \<le> 9 / 10)"
proof -
  let ?text = "lower (extract_full_response_text response)"
  let ?run = "run_validator mt response (fresh_result name claimed)"
  have s: "strengths ?run = []"
    using run_validator_no_keywords(1) [OF assms(2)] by (simp add: fresh_result_def)
  have i: "map issue_severity (issues ?run) = zero_keyword_severities mt ?text"
    using run_validator_no_keywords(2) [OF assms(2), of "fresh_result name claimed"]
    by (simp add: fresh_result_def)
  have ne: "issues ?run \<noteq> []"
  proof
    assume "issues ?run = []"
    with i have "zero_keyword_severities mt ?text = []" by simp
    then show False by (simp add: zero_keyword_severities_def split: if_splits)
  qed
  have sc: "calculate_validation_score ?run =
           (if mt = CLEAN_ARCHITECTURE \<or> mt = SOLID_PRINCIPLES then 7 / 10
            else if mt = OWASP_SECURITY then 8 / 10
            else if mt = NIST_CYBERSECURITY \<or> mt = UX_DESIGN_THINKING \<or> mt = REST_API_DESIGN
                    \<or> mt = MICROSERVICES_PATTERNS then 9 / 10
            else if length ?text < 100 then 8 / 10 else 9 / 10)"
    unfolding score_from_severities i s
    by (simp add: zero_keyword_severities_def)
  have lv: "determine_compliance_level (calculate_validation_score ?run) =
           (if mt = CLEAN_ARCHITECTURE \<or> mt = SOLID_PRINCIPLES then ''fair''
            else if mt = OWASP_SECURITY then ''good''
            else if mt = NIST_CYBERSECURITY \<or> mt = UX_DESIGN_THINKING \<or> mt = REST_API_DESIGN
                    \<or> mt = MICROSERVICES_PATTERNS then ''excellent''
            else if length ?text < 100 then ''good'' else ''excellent'')"
    unfolding sc by (simp add: determine_compliance_level_def)
  have rg: "7 / 10 \<le> calculate_validation_score ?run \<and> calculate_validation_score ?run \<le> 9 / 10"
    unfolding sc by simp
  show ?thesis
    unfolding Let_def validate_known [OF assms(1)]
    using ne s sc lv rg by simp
qed

theorem zero_keyword_validation_witness:
  "map_methodology_string_to_type ''SOLID principles'' = Some SOLID_PRINCIPLES
   \<and> \<not> any_in (rubric_keywords SOLID_PRINCIPLES) (lower (extract_full_response_text refactor_response))
   \<and> issues (fst (validate_agent_methodology new_validator refactor_response
                      ''SOLID principles'' ''backend-builder'')) \<noteq> []
   \<and> validation_score (fst (validate_agent_methodology new_validator refactor_response
                      ''SOLID principles'' ''backend-builder'')) = 7 / 10
   \<and> overall_compliance (fst (validate_agent_methodology new_validator refactor_response
                      ''SOLID principles'' ''backend-builder'')) = ''fair''"
proof -
  have a: "map_methodology_string_to_type ''SOLID principles'' = Some SOLID_PRINCIPLES"
    by code_simp
  have b: "\<not> any_in (rubric_keywords SOLID_PRINCIPLES)
               (lower (extract_full_response_text refactor_response))"
    by code_simp
  from zero_keyword_validation [OF a b, of new_validator "''backend-builder''", unfolded Let_def]
  show ?thesis using a b by simp
qed

end
